theory Spec2Isabelle
  imports Complex_Main "HOL-Library.List_Lexorder" "HOL-Library.Sublist" "HOL-Library.AList"
begin

section \<open>Common Python values\<close>

text \<open>
  A Python \<open>str\<close> is a sequence of Unicode code points, so it is modelled as a list of
  natural numbers: \<open>len\<close> is \<open>length\<close>, and the order on strings is the lexicographic
  order on the code points (the order of \<open>HOL-Library.List_Lexorder\<close>), which is what
  \<open>sorted\<close> compares.  \<open>py\<close> writes an ASCII literal.
\<close>

type_synonym pystr = "nat list"

definition py :: "string \<Rightarrow> pystr" where
  "py s = map of_char s"

text \<open>A raised exception: the name of its class and the text \<open>str(e)\<close> gives.\<close>

datatype pyexn = PyExn (exn_type: pystr) (exn_str: pystr)

definition OverflowError :: pyexn where
  "OverflowError =
     PyExn (py ''OverflowError'')
       (py ''(34, '' @ [39] @ py ''Numerical result out of range'' @ [39] @ py '')'')"

definition ZeroDivisionError :: pyexn where
  "ZeroDivisionError =
     PyExn (py ''ZeroDivisionError'') (py ''0.0 cannot be raised to a negative power'')"

definition TypeError :: "pystr \<Rightarrow> pyexn" where
  "TypeError msg = PyExn (py ''TypeError'') msg"

definition Exception :: "pystr \<Rightarrow> pyexn" where
  "Exception msg = PyExn (py ''Exception'') msg"


text \<open>
  A \<open>datetime\<close> is a count of microseconds, and so is a \<open>timedelta\<close>: both have
  microsecond resolution and exact arithmetic.  \<open>timedelta.seconds\<close> is the seconds field of
  the normalised triple (days, seconds, microseconds), with \<open>0 \<le> seconds < 86400\<close>;
  \<open>timedelta.total_seconds()\<close> is the whole duration.
\<close>

type_synonym datetime = int
type_synonym timedelta = int

definition timedelta_days :: "int \<Rightarrow> timedelta" where
  "timedelta_days d = d * 86400 * 1000000"

definition timedelta_seconds :: "timedelta \<Rightarrow> int" where
  "timedelta_seconds d = (d mod (86400 * 1000000)) div 1000000"

text \<open>
  A Python \<open>float\<close> is modelled as a real number: rounding is not modelled, infinities and
  NaN are not values.  What is modelled is the one place where float arithmetic raises:
  \<open>x ** n\<close> raises \<open>OverflowError\<close> when the result is finite in the reals and rounds
  beyond the largest double, and \<open>ZeroDivisionError\<close> for \<open>0.0\<close> to a negative power.
\<close>

definition float_overflows :: "real \<Rightarrow> bool" where
  "float_overflows r = (2 ^ 1024 - 2 ^ 970 \<le> \<bar>r\<bar>)"

definition float_pow :: "real \<Rightarrow> int \<Rightarrow> pyexn + real" where
  "float_pow b n =
     (if 0 \<le> n then
        (let r = b ^ nat n in if float_overflows r then Inl OverflowError else Inr r)
      else if b = 0 then Inl ZeroDivisionError
      else (let r = 1 / b ^ nat (- n) in if float_overflows r then Inl OverflowError else Inr r))"

text \<open>\<open>random.uniform(a, b)\<close> is \<open>a + (b - a) * random()\<close>; \<open>rnd\<close> is the draw of \<open>random()\<close>.\<close>

definition uniform :: "real \<Rightarrow> real \<Rightarrow> real \<Rightarrow> real" where
  "uniform a b rnd = a + (b - a) * rnd"


section \<open>retry\_manager.py: configuration, backoff, circuit breaker\<close>

datatype RetryReason =
  NETWORK_ERROR | API_RATE_LIMIT | API_ERROR | TIMEOUT
  | MEMORY_ERROR | FILE_ERROR | PROCESSING_ERROR | UNKNOWN_ERROR

record RetryConfig =
  max_retries :: int
  base_delay :: real
  max_delay :: real
  exponential_base :: real
  jitter :: bool
  retry_on_errors :: "RetryReason list"
  enable_circuit_breaker :: bool
  circuit_failure_threshold :: int
  circuit_recovery_time :: int

text \<open>
  The dataclass defaults; \<open>retry_on_errors\<close> holds the list that \<open>RetryManager.__init__\<close>
  puts in place of \<open>None\<close>.
\<close>

definition RetryConfig_default :: RetryConfig where
  "RetryConfig_default =
     \<lparr> max_retries = 3, base_delay = 1, max_delay = 300, exponential_base = 2,
       jitter = True,
       retry_on_errors = [NETWORK_ERROR, API_RATE_LIMIT, TIMEOUT, API_ERROR],
       enable_circuit_breaker = True, circuit_failure_threshold = 5,
       circuit_recovery_time = 300 \<rparr>"

text \<open>\<open>RetryManager._calculate_delay\<close>; \<open>rnd\<close> is the draw the jitter uses.\<close>

definition calculate_delay :: "RetryConfig \<Rightarrow> int \<Rightarrow> RetryReason \<Rightarrow> real \<Rightarrow> pyexn + real" where
  "calculate_delay config attempt_number error_type rnd =
     (case float_pow (exponential_base config) attempt_number of
        Inl e \<Rightarrow> Inl e
      | Inr p \<Rightarrow>
          (let delay = (if error_type = API_RATE_LIMIT then base_delay config * p * 2
                        else base_delay config * p);
               delay = min delay (max_delay config)
           in Inr (if jitter config then delay * uniform 0.5 1.5 rnd else delay)))"

text \<open>
  \<open>CircuitBreaker\<close>.  The field \<open>state\<close> is a string in the source; the three values it is
  ever given are the constructors here.
\<close>

datatype breaker_state = closed | opened | half_open

record CircuitBreaker =
  failure_threshold :: int
  recovery_time :: int
  failure_count :: int
  last_failure_time :: "datetime option"
  state :: breaker_state

definition CircuitBreaker_init :: "int \<Rightarrow> int \<Rightarrow> CircuitBreaker" where
  "CircuitBreaker_init threshold recovery =
     \<lparr> failure_threshold = threshold, recovery_time = recovery, failure_count = 0,
       last_failure_time = None, state = closed \<rparr>"

definition circuit_open_exn :: pyexn where
  "circuit_open_exn = Exception (py ''Circuit breaker is open'')"

text \<open>
  The wrapped function runs in a world \<open>'w\<close> (whatever it reads and changes) and returns
  a value or raises.  Invoking it is the only thing that changes the world, so a call that
  leaves the world as it was has not invoked it.
\<close>

type_synonym ('w, 'a) wrapped = "'w \<Rightarrow> (pyexn + 'a) \<times> 'w"

text \<open>The \<open>try\<close> block of \<open>CircuitBreaker.call\<close>; \<open>now_fail\<close> is the clock read in the handler.\<close>

definition call_attempt ::
  "CircuitBreaker \<Rightarrow> datetime \<Rightarrow> ('w, 'a) wrapped \<Rightarrow> 'w \<Rightarrow> CircuitBreaker \<times> 'w \<times> (pyexn + 'a)" where
  "call_attempt cb now_fail func w =
     (case func w of
        (Inr result, w') \<Rightarrow>
          ((if state cb = half_open then cb\<lparr>state := closed, failure_count := 0\<rparr> else cb),
           w', Inr result)
      | (Inl e, w') \<Rightarrow>
          (let cb1 = cb\<lparr>failure_count := failure_count cb + 1,
                         last_failure_time := Some now_fail\<rparr>;
               cb2 = (if failure_threshold cb1 \<le> failure_count cb1
                      then cb1\<lparr>state := opened\<rparr> else cb1)
           in (cb2, w', Inl e)))"

text \<open>\<open>CircuitBreaker.call\<close>; \<open>now\<close> is the clock read of the open-state check.\<close>

definition call ::
  "CircuitBreaker \<Rightarrow> datetime \<Rightarrow> datetime \<Rightarrow> ('w, 'a) wrapped \<Rightarrow> 'w
     \<Rightarrow> CircuitBreaker \<times> 'w \<times> (pyexn + 'a)" where
  "call cb now now_fail func w =
     (if state cb = opened then
        (case last_failure_time cb of
           None \<Rightarrow> (cb, w, Inl (TypeError (py ''unsupported operand type(s) for -'')))
         | Some t \<Rightarrow>
             if timedelta_seconds (now - t) < recovery_time cb
             then (cb, w, Inl circuit_open_exn)
             else call_attempt (cb\<lparr>state := half_open\<rparr>) now_fail func w)
      else call_attempt cb now_fail func w)"

text \<open>A series of calls through one breaker: each entry gives the two clock reads.\<close>

fun calls ::
  "CircuitBreaker \<Rightarrow> (datetime \<times> datetime) list \<Rightarrow> ('w, 'a) wrapped \<Rightarrow> 'w \<Rightarrow> CircuitBreaker \<times> 'w" where
  "calls cb [] func w = (cb, w)"
| "calls cb ((now, now_fail) # ts) func w =
     (case call cb now now_fail func w of (cb', w', _) \<Rightarrow> calls cb' ts func w')"

text \<open>A wrapped function that always raises, and counts its invocations in the world.\<close>

definition always_fails :: "(nat, unit) wrapped" where
  "always_fails n = (Inl (Exception (py ''connection refused'')), Suc n)"

definition seconds :: "int \<Rightarrow> timedelta" where
  "seconds s = s * 1000000"



section \<open>file\_splitter.py: planning the chunks\<close>

text \<open>\<open>str(n)\<close> and the format \<open>{n:03d}\<close> for an integer: decimal digits, padded with zeros to
  a width of at least three (the sign counts for the width).\<close>

function str_nat :: "nat \<Rightarrow> pystr" where
  "str_nat n = (if n < 10 then [48 + n] else str_nat (n div 10) @ [48 + n mod 10])"
  by pat_completeness auto
termination
  by (relation "measure id") auto

declare str_nat.simps [simp del]

definition str_int :: "int \<Rightarrow> pystr" where
  "str_int n = (if 0 \<le> n then str_nat (nat n) else 45 # str_nat (nat (- n)))"

definition format_03d :: "int \<Rightarrow> pystr" where
  "format_03d n =
     (if 0 \<le> n then (let ds = str_nat (nat n) in replicate (3 - length ds) 48 @ ds)
      else (let ds = str_nat (nat (- n)) in 45 # replicate (2 - length ds) 48 @ ds))"


text \<open>
  \<open>int(x)\<close> for a float truncates towards zero.
\<close>

datatype SplitStrategy = BY_PAGES | BY_SIZE | BY_MEMORY | INTELLIGENT | ADAPTIVE

record SplitConfig =
  strategy :: SplitStrategy
  max_pages_per_chunk :: int
  max_size_per_chunk_mb :: int
  max_memory_usage_mb :: int
  min_pages_per_chunk :: int
  overlap_pages :: int
  preserve_structure :: bool
  parallel_processing :: bool
  max_parallel_chunks :: int

record ChunkInfo =
  chunk_id :: pystr
  start_page :: int
  end_page :: int
  page_count :: int
  estimated_size_mb :: real
  file_path :: "pystr option"
  status :: pystr
  ocr_result :: "pystr option"
  error_message :: "pystr option"

record analysis =
  an_file_size_mb :: real
  an_page_count :: int
  an_avg_page_size_mb :: real
  an_has_images :: bool
  an_estimated_memory_mb :: real

definition new_chunk :: "int \<Rightarrow> int \<Rightarrow> int \<Rightarrow> int \<Rightarrow> real \<Rightarrow> ChunkInfo" where
  "new_chunk n s e actual_pages size_mb =
     \<lparr> chunk_id = py ''chunk_'' @ format_03d n, start_page = s, end_page = e,
       page_count = actual_pages, estimated_size_mb = size_mb,
       file_path = None, status = py ''pending'', ocr_result = None, error_message = None \<rparr>"

partial_function (option) plan_chunks ::
  "int \<Rightarrow> int \<Rightarrow> int \<Rightarrow> real \<Rightarrow> int \<Rightarrow> int \<Rightarrow> ChunkInfo list \<Rightarrow> ChunkInfo list option" where
  "plan_chunks pages window overlap avg_page_size start n chunks =
     (if start \<le> pages then
        (let end_p = min (start + window - 1) pages;
             actual_pages = end_p - start + 1
         in plan_chunks pages window overlap avg_page_size (end_p + 1 - overlap) (n + 1)
              (chunks @ [new_chunk n start end_p actual_pages (of_int actual_pages * avg_page_size)]))
      else Some chunks)"

definition int_of_float :: "real \<Rightarrow> int" where
  "int_of_float r = (if 0 \<le> r then \<lfloor>r\<rfloor> else \<lceil>r\<rceil>)"

definition split_by_pages :: "SplitConfig \<Rightarrow> analysis \<Rightarrow> ChunkInfo list option" where
  "split_by_pages config an =
     plan_chunks (an_page_count an) (max_pages_per_chunk config) (overlap_pages config)
       (an_avg_page_size_mb an) 1 1 []"

definition chunk_ids :: "ChunkInfo list option \<Rightarrow> pystr list" where
  "chunk_ids r = (case r of None \<Rightarrow> [] | Some cs \<Rightarrow> map chunk_id cs)"

definition SplitConfig_default :: SplitConfig where
  "SplitConfig_default =
     \<lparr> strategy = ADAPTIVE, max_pages_per_chunk = 50, max_size_per_chunk_mb = 100,
       max_memory_usage_mb = 512, min_pages_per_chunk = 5, overlap_pages = 0,
       preserve_structure = True, parallel_processing = True, max_parallel_chunks = 4 \<rparr>"

definition example_analysis :: "int \<Rightarrow> analysis" where
  "example_analysis pages =
     \<lparr> an_file_size_mb = of_int pages / 2, an_page_count = pages, an_avg_page_size_mb = 1 / 2,
       an_has_images = False, an_estimated_memory_mb = min (50 + of_int pages * 2) 2048 \<rparr>"

definition split_by_size :: "SplitConfig \<Rightarrow> analysis \<Rightarrow> ChunkInfo list option" where
  "split_by_size config an =
     (let pages = an_page_count an;
          avg_page_size = an_avg_page_size_mb an;
          max_size = max_size_per_chunk_mb config;
          pages_per_chunk =
            max (min_pages_per_chunk config)
                (if 0 < avg_page_size then int_of_float (of_int max_size / avg_page_size)
                 else max_pages_per_chunk config)
      in plan_chunks pages pages_per_chunk (overlap_pages config) avg_page_size 1 1 [])"

definition split_by_memory :: "SplitConfig \<Rightarrow> analysis \<Rightarrow> ChunkInfo list option" where
  "split_by_memory config an =
     (let pages = an_page_count an;
          estimated_memory = an_estimated_memory_mb an;
          max_memory = max_memory_usage_mb config;
          memory_per_page = (if 0 < pages then estimated_memory / of_int pages else 2);
          safe_pages =
            max (min_pages_per_chunk config)
                (if 0 < memory_per_page then int_of_float (of_int max_memory / memory_per_page)
                 else 10)
      in plan_chunks pages safe_pages (overlap_pages config) (an_avg_page_size_mb an) 1 1 [])"


text \<open>
  What the claim about \<open>_split_by_pages\<close> asks of the chunk list: the first chunk starts at
  \<open>s\<close>, each chunk starts right after the one before ends, holds between one and
  \<open>max_pages\<close> pages, carries the id \<open>chunk_\<close> followed by its number formatted with
  \<open>03d\<close>, and the last chunk ends at the last page.
\<close>

fun partition_from :: "int \<Rightarrow> int \<Rightarrow> int \<Rightarrow> int \<Rightarrow> ChunkInfo list \<Rightarrow> bool" where
  "partition_from pages max_pages s n [] = (s = pages + 1)"
| "partition_from pages max_pages s n (c # cs) =
     (start_page c = s \<and> s \<le> end_page c \<and> end_page c \<le> pages
      \<and> page_count c = end_page c - s + 1 \<and> page_count c \<le> max_pages
      \<and> chunk_id c = py ''chunk_'' @ format_03d n
      \<and> partition_from pages max_pages (end_page c + 1) (n + 1) cs)"


section \<open>file\_splitter.py: merging the results\<close>

definition is_space :: "nat \<Rightarrow> bool" where
  "is_space c = (c \<in> set [9, 10, 11, 12, 13, 28, 29, 30, 31, 32, 133, 160, 5760,
       8192, 8193, 8194, 8195, 8196, 8197, 8198, 8199, 8200, 8201, 8202,
       8232, 8233, 8239, 8287, 12288])"

definition py_strip :: "pystr \<Rightarrow> pystr" where
  "py_strip s = rev (dropWhile is_space (rev (dropWhile is_space s)))"

fun py_join :: "pystr \<Rightarrow> pystr list \<Rightarrow> pystr" where
  "py_join sep [] = []"
| "py_join sep [x] = x"
| "py_join sep (x # y # ys) = x @ sep @ py_join sep (y # ys)"

definition truthy :: "pystr option \<Rightarrow> bool" where
  "truthy r = (case r of None \<Rightarrow> False | Some s \<Rightarrow> s \<noteq> [])"

















section \<open>main.py: the text-correction stage\<close>

text \<open>
  The two correction services are the only network calls of the stage.  Each is a function
  of the prompt that runs in a world \<open>'w\<close> and returns a response or raises; a service that
  was not called has left the world as it was.  The fixed text of the prompt before and after
  the terminology paragraph is \<open>prompt_head\<close> and \<open>prompt_tail\<close>.  A usage dictionary is
  the list of its items.  The progress callback only logs and is left out.

  \<open>correct_text_with_gemini\<close> wraps all of its body in \<open>try ... except Exception\<close>; its
  result is a sum type so that the \<open>try\<close> around its call in
  \<open>correct_text_with_gemini_streaming\<close> has its handler in the model too.
\<close>

type_synonym usage = "(pystr \<times> int) list"

definition zero_usage :: usage where
  "zero_usage = [(py ''input_tokens'', 0), (py ''output_tokens'', 0), (py ''total_tokens'', 0)]"

definition usage_of :: "int \<Rightarrow> int \<Rightarrow> int \<Rightarrow> usage" where
  "usage_of i out t = [(py ''input_tokens'', i), (py ''output_tokens'', out), (py ''total_tokens'', t)]"

record chat_response =
  resp_usage :: "(int \<times> int \<times> int) option"
  resp_choices :: "pystr option list"

record genai_response =
  g_text :: "pyexn + pystr"
  g_usage_metadata :: "(int \<times> int \<times> int) option"

type_synonym ('w, 'r) service = "pystr \<Rightarrow> 'w \<Rightarrow> (pyexn + 'r) \<times> 'w"

definition IndexError :: pyexn where
  "IndexError = PyExn (py ''IndexError'') (py ''list index out of range'')"

definition AttributeError :: pyexn where
  "AttributeError = PyExn (py ''AttributeError'') (py ''NoneType object has no attribute strip'')"

definition terminology_instruction :: "pystr \<Rightarrow> pystr" where
  "terminology_instruction terminology_terms =
     (if terminology_terms \<noteq> [] then
        [10, 10, 42, 42, 19987, 26377, 21517, 35789, 21442, 32771, 42, 42, 65306]
        @ terminology_terms
        @ [10, 35831, 26681, 25454, 19978, 36848, 19987, 26377, 21517, 35789, 21015, 34920,
           32416, 27491, 25991, 26412, 20013, 20986, 29616, 30340, 30456, 20851, 35789, 27719,
           12290]
      else [])"

definition terminology_prompt :: "pystr \<Rightarrow> pystr" where
  "terminology_prompt terminology_terms =
     (if py_strip terminology_terms \<noteq> [] then
        [10, 10, 19987, 26377, 21517, 35789, 21442, 32771, 65288, 35831, 30830, 20445, 36825,
         20123, 35789, 27719, 22312, 32416, 38169, 26102, 20445, 25345, 27491, 30830, 65289,
         65306, 10]
        @ terminology_terms
      else [])"

definition response_content :: "chat_response \<Rightarrow> pyexn + pystr" where
  "response_content response =
     (case resp_choices response of
        [] \<Rightarrow> Inl IndexError
      | None # _ \<Rightarrow> Inl AttributeError
      | Some content # _ \<Rightarrow> Inr (py_strip content))"

definition correct_text_with_gemini ::
  "pystr \<Rightarrow> pystr \<Rightarrow> ('w, chat_response) service \<Rightarrow> pystr \<Rightarrow> pystr \<Rightarrow> 'w
     \<Rightarrow> (pyexn + pystr \<times> usage) \<times> 'w" where
  "correct_text_with_gemini prompt_head prompt_tail create ocr_text terminology_terms w =
     (let prompt = prompt_head @ terminology_instruction terminology_terms @ prompt_tail @ ocr_text
      in case create prompt w of
           (Inl e, w') \<Rightarrow> (Inr (ocr_text, []), w')
         | (Inr response, w') \<Rightarrow>
             (let usage_stats =
                    (case resp_usage response of
                       None \<Rightarrow> []
                     | Some (i, out, t) \<Rightarrow> usage_of i out t)
              in case response_content response of
                   Inl e \<Rightarrow> (Inr (ocr_text, []), w')
                 | Inr content \<Rightarrow> (Inr (content, usage_stats), w')))"

fun count_words :: "bool \<Rightarrow> pystr \<Rightarrow> nat" where
  "count_words in_word [] = 0"
| "count_words in_word (c # cs) =
     (if is_space c then count_words False cs
      else if in_word then count_words True cs
      else Suc (count_words True cs))"

definition official_gemini ::
  "pystr \<Rightarrow> pystr \<Rightarrow> ('w, genai_response) service \<Rightarrow> pystr \<Rightarrow> pystr \<Rightarrow> 'w
     \<Rightarrow> (pystr \<times> usage) \<times> 'w" where
  "official_gemini prompt_head prompt_tail generate text terminology_terms w =
     (let prompt = prompt_head @ terminology_prompt terminology_terms @ prompt_tail @ text
      in case generate prompt w of
           (Inl e, w') \<Rightarrow> ((text, zero_usage), w')
         | (Inr response, w') \<Rightarrow>
             (case g_text response of
                Inl e \<Rightarrow> ((text, zero_usage), w')
              | Inr corrected_text \<Rightarrow>
                  (let token_usage =
                         (case g_usage_metadata response of
                            Some (i, out, t) \<Rightarrow> usage_of i out t
                          | None \<Rightarrow>
                              (let estimated_input = int (count_words False prompt);
                                   estimated_output = int (count_words False corrected_text)
                               in usage_of estimated_input estimated_output
                                    (estimated_input + estimated_output)))
                   in ((corrected_text, token_usage), w'))))"

definition correct_text_with_gemini_streaming ::
  "pystr \<Rightarrow> pystr \<Rightarrow> pystr \<Rightarrow> pystr \<Rightarrow> ('w, chat_response) service
     \<Rightarrow> ('w, genai_response) service \<Rightarrow> pystr \<Rightarrow> pystr \<Rightarrow> 'w \<Rightarrow> (pystr \<times> usage) \<times> 'w" where
  "correct_text_with_gemini_streaming GEMINI_API_KEY GEMINI_BASE_URL prompt_head prompt_tail
       create generate text terminology_terms w =
     (if GEMINI_API_KEY = [] \<or> GEMINI_BASE_URL = [] then ((text, zero_usage), w)
      else
        (case correct_text_with_gemini prompt_head prompt_tail create text terminology_terms w of
           (Inr result, w') \<Rightarrow> (result, w')
         | (Inl third_party_error, w') \<Rightarrow>
             official_gemini prompt_head prompt_tail generate text terminology_terms w'))"

datatype network_call = ThirdPartyCall | OfficialCall

definition failing_create :: "(network_call list, chat_response) service" where
  "failing_create prompt made =
     (Inl (Exception (py ''Connection error.'')), made @ [ThirdPartyCall])"

definition failing_generate :: "(network_call list, genai_response) service" where
  "failing_generate prompt made =
     (Inl (Exception (py ''503 service unavailable'')), made @ [OfficialCall])"


section \<open>image\_preprocessor.py\<close>

text \<open>
  A PIL image is its mode and its pixels, row by row; an OpenCV array is a grey raster or a
  three-channel raster in the order blue, green, red.  The filters (\<open>_correct_geometry\<close>,
  \<open>_reduce_noise\<close>, \<open>_enhance_contrast\<close>, \<open>_sharpen_image\<close>, \<open>_binarize_image\<close>,
  \<open>_adjust_dpi\<close>, \<open>_calculate_quality_score\<close>), the grey conversion of \<open>cv2\<close> and the
  \<open>convert('RGB')\<close> of PIL are calls into the imaging libraries; they are parameters,
  collected in \<open>cv_operations\<close>.  The filters that have no \<open>try\<close> of their own may raise;
  \<open>_correct_geometry\<close> and \<open>_calculate_quality_score\<close> catch every exception themselves.
  The conversions between the two formats are modelled in full: \<open>cv2.cvtColor\<close> raises
  \<open>cv2.error\<close> on an array without elements (an image of width or height 0), and
  \<open>_pil_to_cv2\<close> hands it the array of the image unguarded.  \<open>processing_time\<close> (two
  clock reads) is left out of the statistics.  \<open>preprocess_image\<close> returns the configuration
  too, since it assigns \<open>self.config\<close> and \<open>_apply_mode_preset\<close> writes into it.
\<close>

datatype PreprocessingMode = NONE | BASIC | DOCUMENT | PHOTO | AGGRESSIVE

record PreprocessingConfig =
  mode :: PreprocessingMode
  enable_noise_reduction :: bool
  enable_sharpening :: bool
  enable_contrast_enhancement :: bool
  enable_deskewing :: bool
  enable_perspective_correction :: bool
  noise_reduction_strength :: real
  sharpening_strength :: real
  contrast_factor :: real
  brightness_factor :: real
  deskewing_threshold :: real
  perspective_detection_threshold :: real
  output_dpi :: int
  binarization :: bool
  grayscale :: bool

definition PreprocessingConfig_default :: PreprocessingConfig where
  "PreprocessingConfig_default =
     \<lparr> mode = DOCUMENT, enable_noise_reduction = True, enable_sharpening = True,
       enable_contrast_enhancement = True, enable_deskewing = True,
       enable_perspective_correction = True, noise_reduction_strength = 1,
       sharpening_strength = 1, contrast_factor = 1.2, brightness_factor = 1,
       deskewing_threshold = 0.5, perspective_detection_threshold = 0.02,
       output_dpi = 300, binarization = False, grayscale = False \<rparr>"

definition create_preprocessor_config :: "PreprocessingMode \<Rightarrow> PreprocessingConfig" where
  "create_preprocessor_config m = PreprocessingConfig_default\<lparr>mode := m\<rparr>"

type_synonym 'p raster = "'p list list"

datatype pil_image =
  ImageL "nat raster"
  | ImageRGB "(nat \<times> nat \<times> nat) raster"
  | ImageRGBA "(nat \<times> nat \<times> nat \<times> nat) raster"
  | ImageOther pystr "nat list raster"

datatype cv_image = Gray "nat raster" | Colour "(nat \<times> nat \<times> nat) raster"

definition raster_size :: "'p raster \<Rightarrow> nat \<times> nat" where
  "raster_size rows = (case rows of [] \<Rightarrow> (0, 0) | r # _ \<Rightarrow> (length r, length rows))"

fun image_size :: "pil_image \<Rightarrow> nat \<times> nat" where
  "image_size (ImageL rows) = raster_size rows"
| "image_size (ImageRGB rows) = raster_size rows"
| "image_size (ImageRGBA rows) = raster_size rows"
| "image_size (ImageOther m rows) = raster_size rows"

text \<open>An array has no element when it has no row or its rows have no pixel.\<close>

definition raster_empty :: "'p raster \<Rightarrow> bool" where
  "raster_empty rows = (concat rows = [])"

fun image_empty :: "pil_image \<Rightarrow> bool" where
  "image_empty (ImageL rows) = raster_empty rows"
| "image_empty (ImageRGB rows) = raster_empty rows"
| "image_empty (ImageRGBA rows) = raster_empty rows"
| "image_empty (ImageOther m rows) = raster_empty rows"

definition cv2_error :: pyexn where
  "cv2_error = PyExn (py ''cv2.error'') (py ''(-215:Assertion failed) !_src.empty() in function cvtColor'')"

text \<open>\<open>cv2.cvtColor(src, code)\<close>, the conversion code given as the function on the pixels.\<close>

definition cvtColor :: "('p raster \<Rightarrow> 'q raster) \<Rightarrow> 'p raster \<Rightarrow> pyexn + 'q raster" where
  "cvtColor code src = (if raster_empty src then Inl cv2_error else Inr (code src))"

text \<open>Sequencing of two steps of which the first may raise.\<close>

definition then_do :: "pyexn + 'a \<Rightarrow> ('a \<Rightarrow> pyexn + 'b) \<Rightarrow> pyexn + 'b" where
  "then_do r f = (case r of Inl e \<Rightarrow> Inl e | Inr x \<Rightarrow> f x)"

definition swap_channels :: "(nat \<times> nat \<times> nat) raster \<Rightarrow> (nat \<times> nat \<times> nat) raster" where
  "swap_channels rows = map (map (\<lambda>(a, b, c). (c, b, a))) rows"

definition drop_alpha_swap :: "(nat \<times> nat \<times> nat \<times> nat) raster \<Rightarrow> (nat \<times> nat \<times> nat) raster" where
  "drop_alpha_swap rows = map (map (\<lambda>(r, g, b, a). (b, g, r))) rows"

record cv_operations =
  convert_RGB :: "pil_image \<Rightarrow> (nat \<times> nat \<times> nat) raster"
  correct_geometry :: "PreprocessingConfig \<Rightarrow> cv_image \<Rightarrow> cv_image \<times> pystr list"
  reduce_noise :: "PreprocessingConfig \<Rightarrow> cv_image \<Rightarrow> pyexn + cv_image"
  enhance_contrast :: "PreprocessingConfig \<Rightarrow> cv_image \<Rightarrow> pyexn + cv_image"
  sharpen_image :: "PreprocessingConfig \<Rightarrow> cv_image \<Rightarrow> pyexn + cv_image"
  binarize_image :: "cv_image \<Rightarrow> pyexn + cv_image"
  BGR2GRAY :: "(nat \<times> nat \<times> nat) raster \<Rightarrow> nat raster"
  adjust_dpi :: "PreprocessingConfig \<Rightarrow> pil_image \<Rightarrow> pyexn + pil_image"
  calculate_quality_score :: "cv_image \<Rightarrow> real"

fun pil_to_cv2 :: "cv_operations \<Rightarrow> pil_image \<Rightarrow> pyexn + cv_image" where
  "pil_to_cv2 ops (ImageRGB rows) =
     then_do (cvtColor swap_channels rows) (\<lambda>bgr. Inr (Colour bgr))"
| "pil_to_cv2 ops (ImageRGBA rows) =
     then_do (cvtColor drop_alpha_swap rows) (\<lambda>bgr. Inr (Colour bgr))"
| "pil_to_cv2 ops (ImageL rows) = Inr (Gray rows)"
| "pil_to_cv2 ops (ImageOther m rows) =
     then_do (cvtColor swap_channels (convert_RGB ops (ImageOther m rows)))
       (\<lambda>bgr. Inr (Colour bgr))"

fun cv2_to_pil :: "cv_image \<Rightarrow> pyexn + pil_image" where
  "cv2_to_pil (Colour rows) =
     then_do (cvtColor swap_channels rows) (\<lambda>rgb. Inr (ImageRGB rgb))"
| "cv2_to_pil (Gray rows) = Inr (ImageL rows)"

definition apply_mode_preset :: "PreprocessingConfig \<Rightarrow> PreprocessingConfig" where
  "apply_mode_preset config =
     (case mode config of
        NONE \<Rightarrow>
          config\<lparr>enable_noise_reduction := False, enable_sharpening := False,
                 enable_contrast_enhancement := False, enable_deskewing := False,
                 enable_perspective_correction := False\<rparr>
      | BASIC \<Rightarrow>
          config\<lparr>noise_reduction_strength := 0.8, sharpening_strength := 0.8,
                 contrast_factor := 1.1, enable_deskewing := False,
                 enable_perspective_correction := False\<rparr>
      | DOCUMENT \<Rightarrow>
          config\<lparr>noise_reduction_strength := 1.0, sharpening_strength := 1.2,
                 contrast_factor := 1.3, brightness_factor := 1.05,
                 enable_deskewing := True, binarization := True\<rparr>
      | PHOTO \<Rightarrow>
          config\<lparr>noise_reduction_strength := 1.2, sharpening_strength := 1.0,
                 contrast_factor := 1.2, enable_perspective_correction := True,
                 enable_deskewing := True\<rparr>
      | AGGRESSIVE \<Rightarrow>
          config\<lparr>noise_reduction_strength := 1.5, sharpening_strength := 2.0,
                 contrast_factor := 1.5, brightness_factor := 1.1,
                 enable_deskewing := True, enable_perspective_correction := True,
                 binarization := True\<rparr>)"

record preprocess_stats =
  original_size :: "nat \<times> nat"
  operations_applied :: "pystr list"
  processed_size :: "nat \<times> nat"
  quality_score :: real

fun is_colour :: "cv_image \<Rightarrow> bool" where
  "is_colour (Colour rows) = True"
| "is_colour (Gray rows) = False"

fun to_gray :: "cv_operations \<Rightarrow> cv_image \<Rightarrow> pyexn + cv_image" where
  "to_gray ops (Colour rows) =
     then_do (cvtColor (BGR2GRAY ops) rows) (\<lambda>grey. Inr (Gray grey))"
| "to_gray ops (Gray rows) = Inr (Gray rows)"

text \<open>One optional step of the pipeline: when it is enabled the filter runs and its name
  is appended to \<open>operations_applied\<close>.\<close>

definition filter_step ::
  "bool \<Rightarrow> (cv_image \<Rightarrow> pyexn + cv_image) \<Rightarrow> pystr \<Rightarrow> cv_image \<times> pystr list
     \<Rightarrow> pyexn + cv_image \<times> pystr list" where
  "filter_step enabled f name current =
     (case current of (cv_image, applied) \<Rightarrow>
        if enabled then then_do (f cv_image) (\<lambda>cv_image. Inr (cv_image, applied @ [name]))
        else Inr (cv_image, applied))"

definition preprocess_image ::
  "cv_operations \<Rightarrow> PreprocessingConfig \<Rightarrow> pil_image \<Rightarrow> PreprocessingConfig option
     \<Rightarrow> (pyexn + pil_image \<times> preprocess_stats) \<times> PreprocessingConfig" where
  "preprocess_image ops self_config img config =
     (let self_config = (case config of Some c \<Rightarrow> c | None \<Rightarrow> self_config)
      in case pil_to_cv2 ops img of
           Inl e \<Rightarrow> (Inl e, self_config)
         | Inr cv_image \<Rightarrow>
             (let self_config = apply_mode_preset self_config
              in (then_do
                    (Inr (if enable_deskewing self_config \<or> enable_perspective_correction self_config
                          then correct_geometry ops self_config cv_image else (cv_image, [])))
                 (\<lambda>current. then_do
                    (filter_step (enable_noise_reduction self_config)
                       (reduce_noise ops self_config) (py ''noise_reduction'') current)
                 (\<lambda>current. then_do
                    (filter_step (enable_contrast_enhancement self_config)
                       (enhance_contrast ops self_config) (py ''contrast_enhancement'') current)
                 (\<lambda>current. then_do
                    (filter_step (enable_sharpening self_config)
                       (sharpen_image ops self_config) (py ''sharpening'') current)
                 (\<lambda>current. then_do
                    (filter_step (binarization self_config)
                       (binarize_image ops) (py ''binarization'') current)
                 (\<lambda>current. then_do
                    (filter_step (grayscale self_config \<and> is_colour (fst current))
                       (to_gray ops) (py ''grayscale_conversion'') current)
                 (\<lambda>(cv_image, applied). then_do (cv2_to_pil cv_image)
                 (\<lambda>processed_image. then_do
                    (if output_dpi self_config \<noteq> 300
                     then then_do (adjust_dpi ops self_config processed_image)
                            (\<lambda>resized. Inr (resized, applied @ [py ''dpi_adjustment'']))
                     else Inr (processed_image, applied))
                 (\<lambda>(processed_image, applied).
                    Inr (processed_image,
                         \<lparr> original_size = image_size img, operations_applied = applied,
                           processed_size = image_size processed_image,
                           quality_score = calculate_quality_score ops cv_image \<rparr>))))))))),
                  self_config)))"

definition identity_operations :: cv_operations where
  "identity_operations =
     \<lparr> convert_RGB = (\<lambda>img. []), correct_geometry = (\<lambda>config img. (img, [])),
       reduce_noise = (\<lambda>config img. Inr img), enhance_contrast = (\<lambda>config img. Inr img),
       sharpen_image = (\<lambda>config img. Inr img), binarize_image = (\<lambda>img. Inr img),
       BGR2GRAY = (\<lambda>rows. map (map fst) rows), adjust_dpi = (\<lambda>config img. Inr img),
       calculate_quality_score = (\<lambda>img. 50) \<rparr>"

fun is_L_or_RGB :: "pil_image \<Rightarrow> bool" where
  "is_L_or_RGB (ImageL rows) = True"
| "is_L_or_RGB (ImageRGB rows) = True"
| "is_L_or_RGB (ImageRGBA rows) = False"
| "is_L_or_RGB (ImageOther m rows) = False"

fun is_L :: "pil_image \<Rightarrow> bool" where
  "is_L (ImageL rows) = True"
| "is_L (ImageRGB rows) = False"
| "is_L (ImageRGBA rows) = False"
| "is_L (ImageOther m rows) = False"

definition effective_config :: "PreprocessingConfig \<Rightarrow> PreprocessingConfig option \<Rightarrow> PreprocessingConfig" where
  "effective_config self_config config = (case config of Some c \<Rightarrow> c | None \<Rightarrow> self_config)"


section \<open>cache\_manager.py\<close>

text \<open>
  The metadata dictionary keeps its insertion order, which \<open>sorted\<close> sees when two entries
  have the same \<open>last_accessed\<close>; it is an association list with distinct keys
  (\<open>AList.update\<close> for assignment, \<open>AList.delete\<close> for \<open>del\<close>).  The payload files under
  \<open>cache/data\<close> are a map from the cache key to the file: what unpickling it gives
  (\<open>None\<close> when it cannot be read back) and its size in bytes.  Deleting a payload file
  always succeeds.  Writing the metadata file (\<open>_save_metadata\<close>) does not change the
  state the operations work on and is left out of them; what it writes is every entry of
  the dictionary (\<open>save_metadata\<close>), which a later \<open>CacheManager\<close> on the same directory
  reads back (\<open>CacheManager_init\<close>).  The type of the keys is a parameter.
\<close>

datatype CacheStatus = PENDING | PROCESSING | COMPLETED | FAILED | EXPIRED | CORRUPTED

type_synonym pydict = "(pystr \<times> pystr) list"

record 'k CacheMetadata =
  md_file_path :: pystr
  file_hash :: "pystr \<times> int \<times> real \<times> nat list"
  file_size :: int
  file_mtime :: real
  cache_key :: 'k
  cache_version :: pystr
  created_time :: datetime
  last_accessed :: datetime
  access_count :: int
  processing_config :: pydict
  ocr_service :: pystr
  terminology_hash :: pystr
  page_range :: "int \<times> int"
  md_status :: CacheStatus
  md_error_message :: "pystr option"
  retry_count :: int
  md_max_retries :: int
  processing_time :: real
  output_size :: int

record CacheConfig =
  max_cache_size_gb :: real
  max_cache_age_days :: int
  max_entries :: int
  cleanup_interval_hours :: int
  enable_compression :: bool
  cfg_cache_version :: pystr
  auto_cleanup :: bool
  preserve_recent :: int

definition CacheConfig_default :: CacheConfig where
  "CacheConfig_default =
     \<lparr> max_cache_size_gb = 5, max_cache_age_days = 30, max_entries = 1000,
       cleanup_interval_hours = 24, enable_compression = True, cfg_cache_version = py ''v1.0'',
       auto_cleanup = True, preserve_recent = 100 \<rparr>"

record payload_file =
  pickled :: "pystr option"
  st_bytes :: int

record 'k CacheManager =
  cache_config :: CacheConfig
  metadata :: "('k \<times> 'k CacheMetadata) list"
  payload_files :: "'k \<rightharpoonup> payload_file"

definition is_expired :: "CacheConfig \<Rightarrow> datetime \<Rightarrow> 'k CacheMetadata \<Rightarrow> bool" where
  "is_expired cfg now md = (timedelta_days (max_cache_age_days cfg) < now - created_time md)"

record cleanup_stats =
  removed_expired :: int
  removed_corrupted :: int
  removed_old :: int
  removed_failed :: int
  total_removed :: int
  bytes_freed :: int

definition stats_zero :: cleanup_stats where
  "stats_zero = \<lparr> removed_expired = 0, removed_corrupted = 0, removed_old = 0,
                  removed_failed = 0, total_removed = 0, bytes_freed = 0 \<rparr>"

text \<open>The decision of the first loop of cleanup for one entry: the counter that is
  incremented when the entry is to be removed.\<close>

datatype removal = Expired | Missing | Failed_out | Corrupt

definition should_remove ::
  "'k CacheManager \<Rightarrow> datetime \<Rightarrow> 'k \<times> 'k CacheMetadata \<Rightarrow> removal option" where
  "should_remove self now item =
     (case item of (key, md) \<Rightarrow>
        if is_expired (cache_config self) now md then Some Expired
        else if payload_files self key = None then Some Missing
        else if md_status md = CORRUPTED \<or> md_status md = FAILED then
          (if md_status md = FAILED \<and> md_max_retries md \<le> retry_count md then Some Failed_out
           else if md_status md = CORRUPTED then Some Corrupt
           else None)
        else None)"

definition count_removal :: "removal \<Rightarrow> cleanup_stats \<Rightarrow> cleanup_stats" where
  "count_removal r stats =
     (case r of
        Expired \<Rightarrow> stats\<lparr>removed_expired := removed_expired stats + 1\<rparr>
      | Missing \<Rightarrow> stats\<lparr>removed_corrupted := removed_corrupted stats + 1\<rparr>
      | Failed_out \<Rightarrow> stats\<lparr>removed_failed := removed_failed stats + 1\<rparr>
      | Corrupt \<Rightarrow> stats\<lparr>removed_corrupted := removed_corrupted stats + 1\<rparr>)"

fun scan_entries ::
  "'k CacheManager \<Rightarrow> datetime \<Rightarrow> ('k \<times> 'k CacheMetadata) list \<Rightarrow> 'k list \<Rightarrow> cleanup_stats
     \<Rightarrow> 'k list \<times> cleanup_stats" where
  "scan_entries self now [] to_remove stats = (to_remove, stats)"
| "scan_entries self now (item # items) to_remove stats =
     (case should_remove self now item of
        None \<Rightarrow> scan_entries self now items to_remove stats
      | Some r \<Rightarrow>
          scan_entries self now items (to_remove @ [fst item])
            (let stats = count_removal r stats
             in case payload_files self (fst item) of
                  None \<Rightarrow> stats
                | Some p \<Rightarrow> stats\<lparr>bytes_freed := bytes_freed stats + st_bytes p\<rparr>))"

text \<open>\<open>sorted(xs, key=f, reverse=True)\<close>: descending and stable.\<close>

definition sorted_reverse :: "('a \<Rightarrow> 'b::linorder) \<Rightarrow> 'a list \<Rightarrow> 'a list" where
  "sorted_reverse f xs = rev (sort_key f (rev xs))"

text \<open>The slice \<open>xs[k:]\<close> for an integer \<open>k\<close> of either sign.\<close>

definition slice_from :: "int \<Rightarrow> 'a list \<Rightarrow> 'a list" where
  "slice_from k xs = (if 0 \<le> k then drop (nat k) xs else drop (nat (int (length xs) + k)) xs)"

fun remove_entries :: "'k list \<Rightarrow> 'k CacheManager \<Rightarrow> cleanup_stats \<Rightarrow> 'k CacheManager \<times> cleanup_stats" where
  "remove_entries [] self stats = (self, stats)"
| "remove_entries (key # keys) self stats =
     remove_entries keys
       (self\<lparr>payload_files := (payload_files self)(key := None),
              metadata := AList.delete key (metadata self)\<rparr>)
       (stats\<lparr>total_removed := total_removed stats + 1\<rparr>)"

definition cleanup :: "'k CacheManager \<Rightarrow> datetime \<Rightarrow> cleanup_stats \<times> 'k CacheManager" where
  "cleanup self now =
     (let (to_remove, stats) = scan_entries self now (metadata self) [] stats_zero;
          remaining_items = int (length (metadata self)) - int (length to_remove);
          (to_remove, stats) =
            (if max_entries (cache_config self) < remaining_items then
               (let sorted_items =
                      sorted_reverse (\<lambda>x. last_accessed (snd x))
                        (filter (\<lambda>(k, v). k \<notin> set to_remove) (metadata self));
                    keep_count = min (max_entries (cache_config self)) (preserve_recent (cache_config self));
                    old = slice_from keep_count sorted_items
                in (to_remove @ map fst old,
                    stats\<lparr>removed_old := removed_old stats + int (length old)\<rparr>))
             else (to_remove, stats));
          (self, stats) = remove_entries to_remove self stats
      in (stats, self))"


definition first_pass_kept :: "'k CacheManager \<Rightarrow> datetime \<Rightarrow> ('k \<times> 'k CacheMetadata) list" where
  "first_pass_kept self now = filter (\<lambda>item. should_remove self now item = None) (metadata self)"

text \<open>
  The source files are a map from the path to what \<open>stat\<close> and reading the head of the
  file give (\<open>head_bytes\<close> is \<open>None\<close> when the file cannot be read).  The digests (MD5 of
  the file fingerprint and of the terminology, SHA-256 of the key data) are modelled
  without collisions: a digest is the data it is computed from, so a cache key is the tuple
  of what \<open>_generate_cache_key\<close> hashes.  A JSON configuration is the list of its items,
  serialised with sorted keys.  One clock read \<open>now\<close> stands for the reads of one call.
  \<open>pickle_size\<close> is the size in bytes of the stored payload.
\<close>

record source_file =
  st_size :: int
  st_mtime :: real
  head_bytes :: "nat list option"

type_synonym filesystem = "pystr \<rightharpoonup> source_file"

definition FileNotFoundError :: pyexn where
  "FileNotFoundError = PyExn (py ''FileNotFoundError'') (py ''[Errno 2] No such file or directory'')"

definition path_name :: "pystr \<Rightarrow> pystr" where
  "path_name path = rev (takeWhile (\<lambda>c. c \<noteq> 47) (rev path))"

datatype cache_key =
  CacheKey (key_file_hash: "pystr \<times> int \<times> real \<times> nat list") (key_config: "pydict option")
    (key_ocr_service: pystr) (key_terminology: pystr) (key_page_range: "int \<times> int")
    (key_version: pystr)

definition calculate_file_hash :: "filesystem \<Rightarrow> pystr \<Rightarrow> pyexn + pystr \<times> int \<times> real \<times> nat list" where
  "calculate_file_hash fs path =
     (case fs path of
        None \<Rightarrow> Inl FileNotFoundError
      | Some f \<Rightarrow>
          Inr (path_name path, st_size f, st_mtime f,
               (case head_bytes f of Some chunk \<Rightarrow> chunk | None \<Rightarrow> [])))"

definition config_str :: "pydict \<Rightarrow> pydict option" where
  "config_str cfg = (if cfg \<noteq> [] then Some (sort_key fst cfg) else None)"

definition generate_cache_key ::
  "cache_key CacheManager \<Rightarrow> filesystem \<Rightarrow> pystr \<Rightarrow> pydict \<Rightarrow> pystr \<Rightarrow> pystr \<Rightarrow> int \<times> int
     \<Rightarrow> pyexn + cache_key" where
  "generate_cache_key self fs path cfg ocr_svc terminology_terms pages =
     (case calculate_file_hash fs path of
        Inl e \<Rightarrow> Inl e
      | Inr h \<Rightarrow>
          Inr (CacheKey h (config_str cfg) ocr_svc terminology_terms pages
                 (cfg_cache_version (cache_config self))))"

definition has_cache ::
  "cache_key CacheManager \<Rightarrow> filesystem \<Rightarrow> datetime \<Rightarrow> pystr \<Rightarrow> pydict \<Rightarrow> pystr \<Rightarrow> pystr
     \<Rightarrow> int \<times> int \<Rightarrow> pyexn + bool" where
  "has_cache self fs now path cfg ocr_svc terminology_terms pages =
     (case generate_cache_key self fs path cfg ocr_svc terminology_terms pages of
        Inl e \<Rightarrow> Inl e
      | Inr key \<Rightarrow>
          (case map_of (metadata self) key of
             None \<Rightarrow> Inr False
           | Some md \<Rightarrow>
               if md_status md \<noteq> COMPLETED then Inr False
               else
                 (case fs path of
                    None \<Rightarrow> Inr False
                  | Some file_stat \<Rightarrow>
                      if st_size file_stat \<noteq> file_size md
                         \<or> 1 < \<bar>st_mtime file_stat - file_mtime md\<bar>
                      then Inr False
                      else if payload_files self key = None then Inr False
                      else if is_expired (cache_config self) now md then Inr False
                      else Inr True)))"

definition get_cache ::
  "cache_key CacheManager \<Rightarrow> filesystem \<Rightarrow> datetime \<Rightarrow> pystr \<Rightarrow> pydict \<Rightarrow> pystr \<Rightarrow> pystr
     \<Rightarrow> int \<times> int \<Rightarrow> (pyexn + pystr option) \<times> cache_key CacheManager" where
  "get_cache self fs now path cfg ocr_svc terminology_terms pages =
     (case has_cache self fs now path cfg ocr_svc terminology_terms pages of
        Inl e \<Rightarrow> (Inl e, self)
      | Inr False \<Rightarrow> (Inr None, self)
      | Inr True \<Rightarrow>
          (case generate_cache_key self fs path cfg ocr_svc terminology_terms pages of
             Inl e \<Rightarrow> (Inl e, self)
           | Inr key \<Rightarrow>
               (case (case payload_files self key of None \<Rightarrow> None | Some p \<Rightarrow> pickled p) of
                  Some result \<Rightarrow>
                    (Inr (Some result),
                     self\<lparr>metadata :=
                       map (\<lambda>(k, md). if k = key
                              then (k, md\<lparr>last_accessed := now, access_count := access_count md + 1\<rparr>)
                              else (k, md)) (metadata self)\<rparr>)
                | None \<Rightarrow>
                    (Inr None,
                     self\<lparr>metadata :=
                       map (\<lambda>(k, md). if k = key then (k, md\<lparr>md_status := CORRUPTED\<rparr>) else (k, md))
                         (metadata self)\<rparr>))))"

definition IndexError_range :: pyexn where
  "IndexError_range = PyExn (py ''IndexError'') (py ''list index out of range'')"

fun unlink_entries :: "'k list \<Rightarrow> 'k CacheManager \<Rightarrow> 'k CacheManager" where
  "unlink_entries [] self = self"
| "unlink_entries (key # keys) self =
     unlink_entries keys
       (self\<lparr>payload_files := (payload_files self)(key := None),
              metadata := AList.delete key (metadata self)\<rparr>)"

definition cleanup_old_entries :: "'k CacheManager \<Rightarrow> pyexn option \<times> 'k CacheManager" where
  "cleanup_old_entries self =
     (if int (length (metadata self)) \<le> max_entries (cache_config self) then (None, self)
      else
        (let sorted_items = sort_key (\<lambda>x. last_accessed (snd x)) (metadata self);
             remove_count = int (length (metadata self)) - max_entries (cache_config self)
         in if remove_count \<le> int (length sorted_items)
            then (None, unlink_entries (map fst (take (nat remove_count) sorted_items)) self)
            else (Some IndexError_range, unlink_entries (map fst sorted_items) self)))"

fun utf8_length :: "pystr \<Rightarrow> int" where
  "utf8_length [] = 0"
| "utf8_length (c # cs) =
     (if c < 128 then 1 else if c < 2048 then 2 else if c < 65536 then 3 else 4) + utf8_length cs"

definition completed_entry ::
  "CacheConfig \<Rightarrow> cache_key \<Rightarrow> pystr \<times> int \<times> real \<times> nat list \<Rightarrow> source_file \<Rightarrow> datetime
     \<Rightarrow> pystr \<Rightarrow> pydict \<Rightarrow> pystr \<Rightarrow> pystr \<Rightarrow> int \<times> int \<Rightarrow> pystr \<Rightarrow> real
     \<Rightarrow> cache_key CacheMetadata" where
  "completed_entry config key h file_stat now path cfg ocr_svc terminology_terms pages result ptime =
     \<lparr> md_file_path = path, file_hash = h,
       file_size = st_size file_stat, file_mtime = st_mtime file_stat,
       cache_key = key, cache_version = cfg_cache_version config,
       created_time = now, last_accessed = now, access_count = 0,
       processing_config = cfg, ocr_service = ocr_svc,
       terminology_hash = terminology_terms, page_range = pages,
       md_status = COMPLETED, md_error_message = None, retry_count = 0,
       md_max_retries = 3, processing_time = ptime,
       output_size = utf8_length result \<rparr>"

definition set_cache ::
  "(pystr \<Rightarrow> int) \<Rightarrow> cache_key CacheManager \<Rightarrow> filesystem \<Rightarrow> datetime \<Rightarrow> pystr \<Rightarrow> pydict \<Rightarrow> pystr
     \<Rightarrow> pystr \<Rightarrow> int \<times> int \<Rightarrow> pystr \<Rightarrow> real \<Rightarrow> bool \<times> cache_key CacheManager" where
  "set_cache pickle_size self fs now path cfg ocr_svc terminology_terms pages result ptime =
     (case generate_cache_key self fs path cfg ocr_svc terminology_terms pages of
        Inl e \<Rightarrow> (False, self)
      | Inr key \<Rightarrow>
          (let self = self\<lparr>payload_files :=
                        (payload_files self)(key \<mapsto> \<lparr> pickled = Some result,
                                                      st_bytes = pickle_size result \<rparr>)\<rparr>
           in case (fs path, calculate_file_hash fs path) of
                (Some file_stat, Inr h) \<Rightarrow>
                  (let md = completed_entry (cache_config self) key h file_stat now path cfg
                              ocr_svc terminology_terms pages result ptime;
                       self = self\<lparr>metadata := AList.update key md (metadata self)\<rparr>
                   in if max_entries (cache_config self) < int (length (metadata self))
                      then (case cleanup_old_entries self of
                              (None, self) \<Rightarrow> (True, self)
                            | (Some e, self) \<Rightarrow> (False, self))
                      else (True, self))
              | _ \<Rightarrow> (False, self)))"

definition empty_cache :: "cache_key CacheManager" where
  "empty_cache = \<lparr> cache_config = CacheConfig_default, metadata = [], payload_files = Map.empty \<rparr>"

definition pdf_at :: "real \<Rightarrow> filesystem" where
  "pdf_at mtime = [py ''input/doc.pdf'' \<mapsto>
                     \<lparr> st_size = 10, st_mtime = mtime, head_bytes = Some [37, 80, 68, 70] \<rparr>]"







text \<open>
  The metadata file and a new manager.  \<open>_save_metadata\<close> dumps every entry of the
  dictionary; \<open>__init__\<close> takes the configuration it is given and loads the entries of the
  file (none when there is no file), however many they are: \<open>max_entries\<close> is looked at by
  \<open>set_cache\<close> and \<open>cleanup\<close> only.
\<close>

definition save_metadata :: "'k CacheManager \<Rightarrow> ('k \<times> 'k CacheMetadata) list" where
  "save_metadata self = metadata self"

definition CacheManager_init ::
  "CacheConfig \<Rightarrow> ('k \<times> 'k CacheMetadata) list option \<Rightarrow> ('k \<rightharpoonup> payload_file) \<Rightarrow> 'k CacheManager" where
  "CacheManager_init config metadata_file data =
     \<lparr> cache_config = config,
       metadata = (case metadata_file of None \<Rightarrow> [] | Some saved \<Rightarrow> saved),
       payload_files = data \<rparr>"

text \<open>
  A job that caches the pages of one document one by one, page \<open>i + 1\<close> at second \<open>i\<close>:
  \<open>n\<close> completed entries with distinct keys and distinct \<open>last_accessed\<close> times, inserted
  by \<open>set_cache\<close>.
\<close>

fun cache_pages :: "cache_key CacheManager \<Rightarrow> nat \<Rightarrow> cache_key CacheManager" where
  "cache_pages self 0 = self"
| "cache_pages self (Suc n) =
     snd (set_cache (\<lambda>text. int (length text)) (cache_pages self n) (pdf_at 100) (seconds (int n))
            (py ''input/doc.pdf'') [] (py ''dashscope'') [] (int n + 1, int n + 1) (py ''text'') 0)"

text \<open>The key and the entry of page \<open>i + 1\<close>.\<close>

definition page_key :: "CacheConfig \<Rightarrow> nat \<Rightarrow> cache_key" where
  "page_key config i =
     CacheKey (py ''doc.pdf'', 10, 100, [37, 80, 68, 70]) None (py ''dashscope'') []
       (int i + 1, int i + 1) (cfg_cache_version config)"

definition page_item :: "CacheConfig \<Rightarrow> nat \<Rightarrow> cache_key \<times> cache_key CacheMetadata" where
  "page_item config i =
     (page_key config i,
      completed_entry config (page_key config i) (py ''doc.pdf'', 10, 100, [37, 80, 68, 70])
        \<lparr> st_size = 10, st_mtime = 100, head_bytes = Some [37, 80, 68, 70] \<rparr>
        (seconds (int i)) (py ''input/doc.pdf'') [] (py ''dashscope'') [] (int i + 1, int i + 1)
        (py ''text'') 0)"

text \<open>
  A first run of the program with \<open>max_entries = 2000\<close> caches 1050 pages; the metadata
  file then holds the 1050 entries that the last \<open>set_cache\<close> saved (nothing was evicted
  after it, 1050 being below 2000).  A later run opens the same cache directory with the
  default configuration.
\<close>

definition larger_config :: CacheConfig where
  "larger_config = CacheConfig_default\<lparr>max_entries := 2000\<rparr>"

definition first_session :: "cache_key CacheManager" where
  "first_session = cache_pages (CacheManager_init larger_config None Map.empty) 1050"

definition reopened :: "cache_key CacheManager" where
  "reopened =
     CacheManager_init CacheConfig_default (Some (save_metadata first_session))
       (payload_files first_session)"


section \<open>retry\_manager.py: processing with checkpoints\<close>

text \<open>
  \<open>CacheManager.mark_processing\<close> and \<open>mark_failed\<close>, which \<open>process_with_recovery\<close> calls:
  the first records an entry with status \<open>processing\<close> (no payload is written), the second
  sets the status of an existing entry to \<open>failed\<close> and counts one more retry.
\<close>

definition mark_processing ::
  "cache_key CacheManager \<Rightarrow> filesystem \<Rightarrow> datetime \<Rightarrow> pystr \<Rightarrow> pydict \<Rightarrow> pystr \<Rightarrow> pystr
     \<Rightarrow> int \<times> int \<Rightarrow> (pyexn + cache_key) \<times> cache_key CacheManager" where
  "mark_processing self fs now path cfg ocr_svc terminology_terms pages =
     (case generate_cache_key self fs path cfg ocr_svc terminology_terms pages of
        Inl e \<Rightarrow> (Inl e, self)
      | Inr key \<Rightarrow>
          (case (fs path, calculate_file_hash fs path) of
             (Some file_stat, Inr h) \<Rightarrow>
               (Inr key,
                self\<lparr>metadata :=
                  AList.update key
                    ((completed_entry (cache_config self) key h file_stat now path cfg ocr_svc
                        terminology_terms pages [] 0)
                       \<lparr>md_status := PROCESSING\<rparr>)
                    (metadata self)\<rparr>)
           | _ \<Rightarrow> (Inl FileNotFoundError, self)))"

definition mark_failed :: "'k CacheManager \<Rightarrow> 'k \<Rightarrow> pystr \<Rightarrow> 'k CacheManager" where
  "mark_failed self key error_msg =
     self\<lparr>metadata :=
       map (\<lambda>(k, md). if k = key
              then (k, md\<lparr>md_status := FAILED, md_error_message := Some error_msg,
                          retry_count := retry_count md + 1\<rparr>)
              else (k, md)) (metadata self)\<rparr>"

text \<open>
  The checkpoint of a job.  \<open>partial_results\<close> is a dictionary from the page number to the
  text of the page; its keys are the integers the loop assigns, or the strings that come
  back from a checkpoint file, so a key is either.  A key of one kind is never equal to a
  key of the other (\<open>1 == "1"\<close> is false in Python).
\<close>

record RetryAttempt =
  ra_attempt_number :: int
  ra_timestamp :: datetime
  ra_error_type :: RetryReason
  ra_error_message :: pystr
  delay_before_retry :: real
  ra_success :: bool

datatype dict_key = IntKey int | StrKey pystr

record ProcessingState =
  ps_file_path :: pystr
  ps_cache_key :: cache_key
  total_pages :: int
  completed_pages :: "int list"
  failed_pages :: "int list"
  current_page :: "int option"
  start_time :: datetime
  last_update :: datetime
  retry_attempts :: "RetryAttempt list"
  ps_config :: pydict
  ps_ocr_service :: pystr
  ps_terminology_terms :: pystr
  ps_page_range :: "int \<times> int"
  partial_results :: "(dict_key \<times> pystr) list"

text \<open>The key of a JSON object is a string: \<open>json.dump\<close> writes an integer key as its
  decimal text, and \<open>json.load\<close> gives the text back.\<close>

fun json_key :: "dict_key \<Rightarrow> dict_key" where
  "json_key (IntKey i) = StrKey (str_int i)"
| "json_key (StrKey s) = StrKey s"

definition json_object :: "(dict_key \<times> pystr) list \<Rightarrow> (dict_key \<times> pystr) list" where
  "json_object items = fold (\<lambda>(k, v) acc. AList.update (json_key k) v acc) items []"

text \<open>
  The checkpoint files under \<open>recovery_states\<close> are a map from the cache key to the state
  that was dumped.  \<open>_save_processing_state\<close> dumps the state with \<open>json.dump\<close>;
  \<open>_load_processing_state\<close> rebuilds it from \<open>json.load\<close>: the times and the retry records
  are converted back, \<open>partial_results\<close> is taken as the JSON parser gives it.
\<close>

definition load_processing_state ::
  "(cache_key \<rightharpoonup> ProcessingState) \<Rightarrow> cache_key \<Rightarrow> ProcessingState option" where
  "load_processing_state state_files key =
     (case state_files key of
        None \<Rightarrow> None
      | Some dumped \<Rightarrow> Some (dumped\<lparr>partial_results := json_object (partial_results dumped)\<rparr>))"

definition save_processing_state ::
  "ProcessingState \<Rightarrow> (cache_key \<rightharpoonup> ProcessingState) \<Rightarrow> (cache_key \<rightharpoonup> ProcessingState)" where
  "save_processing_state st state_files = state_files(ps_cache_key st \<mapsto> st)"

text \<open>
  \<open>str.lower\<close>, on the characters that can produce an ASCII letter: the capitals, the
  Kelvin sign and the dotted capital I.  \<open>keyword in s\<close> is the substring test.
\<close>

fun lower_char :: "nat \<Rightarrow> pystr" where
  "lower_char c =
     (if 65 \<le> c \<and> c \<le> 90 then [c + 32]
      else if c = 8490 then [107]
      else if c = 304 then [105, 775]
      else [c])"

definition py_lower :: "pystr \<Rightarrow> pystr" where
  "py_lower s = concat (map lower_char s)"

fun starts_with :: "pystr \<Rightarrow> pystr \<Rightarrow> bool" where
  "starts_with [] s = True"
| "starts_with (k # ks) [] = False"
| "starts_with (k # ks) (c # cs) = (k = c \<and> starts_with ks cs)"

fun contains :: "pystr \<Rightarrow> pystr \<Rightarrow> bool" where
  "contains keyword [] = (keyword = [])"
| "contains keyword (c # cs) = (starts_with keyword (c # cs) \<or> contains keyword cs)"

definition any_in :: "string list \<Rightarrow> pystr \<Rightarrow> bool" where
  "any_in keywords s = list_ex (\<lambda>keyword. contains (py keyword) s) keywords"

definition classify_error :: "pyexn \<Rightarrow> RetryReason" where
  "classify_error error =
     (let error_str = py_lower (exn_str error);
          error_type = py_lower (exn_type error)
      in if any_in [''connection'', ''network'', ''timeout'', ''unreachable''] error_str
         then NETWORK_ERROR
         else if any_in [''rate limit'', ''too many requests'', ''429''] error_str
         then API_RATE_LIMIT
         else if any_in [''api'', ''invalid'', ''unauthorized'', ''401'', ''403'', ''500'', ''502'',
                         ''503''] error_str
         then API_ERROR
         else if contains (py ''timeout'') error_str \<or> contains (py ''timeouterror'') error_type
         then TIMEOUT
         else if contains (py ''memory'') error_str \<or> contains (py ''memoryerror'') error_type
         then MEMORY_ERROR
         else if any_in [''file'', ''directory'', ''permission''] error_str
                 \<or> contains (py ''ioerror'') error_type
         then FILE_ERROR
         else UNKNOWN_ERROR)"

definition should_retry :: "RetryConfig \<Rightarrow> pyexn \<Rightarrow> int \<Rightarrow> bool" where
  "should_retry config error attempt_number =
     (if max_retries config \<le> attempt_number then False
      else classify_error error \<in> set (retry_on_errors config))"

text \<open>
  The page processor is a parameter: given the page number and the configuration it
  returns a text (or \<open>None\<close>) or raises; \<open>'w\<close> is what it can change outside.  \<open>rnd\<close> is
  the draw of the jitter for a page and an attempt, \<open>now\<close> the clock, read once for a run;
  \<open>time.sleep\<close> and the progress callback are left out.  \<open>_process_page_with_retry\<close> is a
  loop over the attempts; the exception \<open>_calculate_delay\<close> can raise leaves it.
\<close>

type_synonym 'w process_func = "int \<Rightarrow> pydict \<Rightarrow> 'w \<Rightarrow> (pyexn + pystr option) \<times> 'w"

function process_page_with_retry ::
  "RetryConfig \<Rightarrow> 'w process_func \<Rightarrow> (int \<Rightarrow> int \<Rightarrow> real) \<Rightarrow> datetime \<Rightarrow> int \<Rightarrow> pydict \<Rightarrow> int
     \<Rightarrow> RetryAttempt list \<Rightarrow> 'w \<Rightarrow> (pyexn + pystr option) \<times> RetryAttempt list \<times> 'w" where
  "process_page_with_retry config process_func rnd now page_num cfg attempt attempts w =
     (if max_retries config < attempt then (Inr None, attempts, w)
      else
        (case process_func page_num cfg w of
           (Inr result, w') \<Rightarrow>
             (Inr result,
              (if 0 < attempt
               then attempts @ [\<lparr> ra_attempt_number = attempt, ra_timestamp = now,
                                  ra_error_type = UNKNOWN_ERROR,
                                  ra_error_message = [25104, 21151],
                                  delay_before_retry = 0, ra_success = True \<rparr>]
               else attempts),
              w')
         | (Inl e, w') \<Rightarrow>
             (case (if attempt < max_retries config \<and> should_retry config e attempt
                    then calculate_delay config attempt (classify_error e) (rnd page_num attempt)
                    else Inr 0) of
                Inl overflow \<Rightarrow> (Inl overflow, attempts, w')
              | Inr delay \<Rightarrow>
                  (if \<not> should_retry config e attempt
                   then (Inr None,
                         attempts @ [\<lparr> ra_attempt_number = attempt, ra_timestamp = now,
                                       ra_error_type = classify_error e,
                                       ra_error_message = exn_str e,
                                       delay_before_retry = delay, ra_success = False \<rparr>],
                         w')
                   else process_page_with_retry config process_func rnd now page_num cfg
                          (attempt + 1)
                          (attempts @ [\<lparr> ra_attempt_number = attempt, ra_timestamp = now,
                                         ra_error_type = classify_error e,
                                         ra_error_message = exn_str e,
                                         delay_before_retry = delay, ra_success = False \<rparr>])
                          w'))))"
  by pat_completeness auto

termination
  by (relation "measure (\<lambda>(config, process_func, rnd, now, page_num, cfg, attempt, attempts, w).
                           nat (max_retries config + 1 - attempt))")
     (auto simp: should_retry_def split: if_splits)

declare process_page_with_retry.simps [simp del]

text \<open>
  The manager: its configuration, the cache manager and the checkpoint files.
  \<open>process_pages\<close> is the loop over the pages of \<open>process_with_recovery\<close>; it stops at
  the first exception that leaves \<open>_process_page_with_retry\<close>.  \<open>combined_results\<close> is the
  second loop, which collects the text of every page number found in \<open>partial_results\<close>.
\<close>

record RetryManager =
  rm_config :: RetryConfig
  cache_manager :: "cache_key CacheManager"
  state_dir :: "cache_key \<rightharpoonup> ProcessingState"

definition str_int_list :: "int list \<Rightarrow> pystr" where
  "str_int_list xs = py ''['' @ py_join (py '', '') (map str_int xs) @ py '']''"

fun process_pages ::
  "RetryConfig \<Rightarrow> 'w process_func \<Rightarrow> (int \<Rightarrow> int \<Rightarrow> real) \<Rightarrow> datetime \<Rightarrow> int list
     \<Rightarrow> ProcessingState \<Rightarrow> (cache_key \<rightharpoonup> ProcessingState) \<Rightarrow> 'w
     \<Rightarrow> pyexn option \<times> ProcessingState \<times> (cache_key \<rightharpoonup> ProcessingState) \<times> 'w" where
  "process_pages config process_func rnd now [] st files w = (None, st, files, w)"
| "process_pages config process_func rnd now (page_num # rest) st files w =
     (if page_num \<in> set (completed_pages st)
      then process_pages config process_func rnd now rest st files w
      else
        (let st = st\<lparr>current_page := Some page_num, last_update := now\<rparr>;
             files = save_processing_state st files
         in case process_page_with_retry config process_func rnd now page_num (ps_config st) 0
                   (retry_attempts st) w of
              (Inl e, attempts, w') \<Rightarrow> (Some e, st\<lparr>retry_attempts := attempts\<rparr>, files, w')
            | (Inr page_result, attempts, w') \<Rightarrow>
                (let st = st\<lparr>retry_attempts := attempts\<rparr>;
                     st = (if truthy page_result
                           then st\<lparr>completed_pages := completed_pages st @ [page_num],
                                   partial_results :=
                                     AList.update (IntKey page_num) (the page_result)
                                       (partial_results st),
                                   failed_pages := remove1 page_num (failed_pages st)\<rparr>
                           else st\<lparr>failed_pages := failed_pages st @ [page_num]\<rparr>);
                     files = save_processing_state st files
                 in process_pages config process_func rnd now rest st files w')))"

definition combined_results :: "int list \<Rightarrow> (dict_key \<times> pystr) list \<Rightarrow> pystr" where
  "combined_results pages results =
     py_join [10, 10]
       (concat (map (\<lambda>page_num. case map_of results (IntKey page_num) of
                                      None \<Rightarrow> [] | Some text \<Rightarrow> [text]) pages))"

definition partial_failure_message :: "ProcessingState \<Rightarrow> int \<Rightarrow> pystr" where
  "partial_failure_message st n_pages =
     [37096, 20998, 39029, 38754, 22788, 29702, 22833, 36133, 58, 32, 25104, 21151, 32]
     @ str_int (int (length (completed_pages st))) @ py ''/'' @ str_int n_pages
     @ [32, 39029, 44, 32, 22833, 36133, 39029, 38754, 58, 32]
     @ str_int_list (failed_pages st)"

definition processing_failed_message :: "pyexn \<Rightarrow> pystr" where
  "processing_failed_message e = [22788, 29702, 22833, 36133, 58, 32] @ exn_str e"

definition process_with_recovery ::
  "(pystr \<Rightarrow> int) \<Rightarrow> 'w process_func \<Rightarrow> (int \<Rightarrow> int \<Rightarrow> real) \<Rightarrow> RetryManager \<Rightarrow> filesystem
     \<Rightarrow> datetime \<Rightarrow> pystr \<Rightarrow> pydict \<Rightarrow> pystr \<Rightarrow> pystr \<Rightarrow> int \<times> int \<Rightarrow> 'w
     \<Rightarrow> (pyexn + pystr) \<times> RetryManager \<times> 'w" where
  "process_with_recovery pickle_size process_func rnd self fs now path cfg ocr_svc terminology_terms
       pages w =
     (case generate_cache_key (cache_manager self) fs path cfg ocr_svc terminology_terms pages of
        Inl e \<Rightarrow> (Inl e, self, w)
      | Inr key \<Rightarrow>
     (case get_cache (cache_manager self) fs now path cfg ocr_svc terminology_terms pages of
        (Inl e, cm) \<Rightarrow> (Inl e, self\<lparr>cache_manager := cm\<rparr>, w)
      | (Inr cached_result, cm) \<Rightarrow>
     (if truthy cached_result then (Inr (the cached_result), self\<lparr>cache_manager := cm\<rparr>, w)
      else
     (let start_p = fst pages; end_p = snd pages; n_pages = end_p - start_p + 1
      in case (case load_processing_state (state_dir self) key of
                 Some st \<Rightarrow> (Inr st, cm)
               | None \<Rightarrow>
                   (case mark_processing cm fs now path cfg ocr_svc terminology_terms pages of
                      (Inl e, cm) \<Rightarrow> (Inl e, cm)
                    | (Inr k, cm) \<Rightarrow>
                        (Inr \<lparr> ps_file_path = path, ps_cache_key = key, total_pages = n_pages,
                               completed_pages = [], failed_pages = [], current_page = None,
                               start_time = now, last_update = now, retry_attempts = [],
                               ps_config = cfg, ps_ocr_service = ocr_svc,
                               ps_terminology_terms = terminology_terms, ps_page_range = pages,
                               partial_results = [] \<rparr>, cm))) of
           (Inl e, cm) \<Rightarrow> (Inl e, self\<lparr>cache_manager := cm\<rparr>, w)
         | (Inr st, cm) \<Rightarrow>
     (case process_pages (rm_config self) process_func rnd now [start_p..end_p] st (state_dir self) w of
        (Some e, st, files, w') \<Rightarrow>
          (Inl e,
           self\<lparr>cache_manager := mark_failed cm key (processing_failed_message e),
                  state_dir := files\<rparr>, w')
      | (None, st, files, w') \<Rightarrow>
          (if int (length (completed_pages st)) = n_pages
           then
             (let combined_result = combined_results [start_p..end_p] (partial_results st);
                  ptime = real_of_int (now - start_time st) / 1000000;
                  (ok, cm) = set_cache pickle_size cm fs now path cfg ocr_svc terminology_terms
                               pages combined_result ptime
              in (Inr combined_result,
                  self\<lparr>cache_manager := cm, state_dir := files(key := None)\<rparr>, w'))
           else
             (let error_msg = partial_failure_message st n_pages;
                  cm = mark_failed cm key error_msg;
                  cm = mark_failed cm key (processing_failed_message (Exception error_msg))
              in (Inl (Exception error_msg),
                  self\<lparr>cache_manager := cm, state_dir := files\<rparr>, w'))))))))"

text \<open>
  A job of two pages run twice.  In the first run page 1 gives the text A and page 2
  raises \<open>ValueError('bad scan')\<close>, which is not retried; in the second run, one minute
  later on the manager the first run left, page 2 gives the text B.
\<close>

definition fresh_manager :: RetryManager where
  "fresh_manager = \<lparr> rm_config = RetryConfig_default, cache_manager = empty_cache,
                      state_dir = Map.empty \<rparr>"

definition bad_scan :: pyexn where
  "bad_scan = PyExn (py ''ValueError'') (py ''bad scan'')"

definition first_processor :: "unit process_func" where
  "first_processor page_num cfg w =
     (if page_num = 1 then Inr (Some (py ''A'')) else Inl bad_scan, w)"

definition second_processor :: "unit process_func" where
  "second_processor page_num cfg w =
     (if page_num = 1 then Inr (Some (py ''A'')) else Inr (Some (py ''B'')), w)"

definition run ::
  "unit process_func \<Rightarrow> RetryManager \<Rightarrow> datetime \<Rightarrow> (pyexn + pystr) \<times> RetryManager \<times> unit" where
  "run process_func self now =
     process_with_recovery (\<lambda>text. int (length text)) process_func (\<lambda>page_num attempt. 0) self
       (pdf_at 100) now (py ''input/doc.pdf'') [] (py ''dashscope'') [] (1, 2) ()"

definition first_run :: "(pyexn + pystr) \<times> RetryManager \<times> unit" where
  "first_run = run first_processor fresh_manager (seconds 0)"

definition second_run :: "(pyexn + pystr) \<times> RetryManager \<times> unit" where
  "second_run = run second_processor (fst (snd first_run)) (seconds 60)"

text \<open>The key of the job, and what the first run leaves: the checkpoint, the message of
  the exception, the cache entry and the manager.\<close>

definition job_key :: cache_key where
  "job_key = CacheKey (py ''doc.pdf'', 10, 100, [37, 80, 68, 70]) None (py ''dashscope'') [] (1, 2)
               (py ''v1.0'')"

definition first_checkpoint :: ProcessingState where
  "first_checkpoint =
     \<lparr> ps_file_path = py ''input/doc.pdf'', ps_cache_key = job_key, total_pages = 2,
       completed_pages = [1], failed_pages = [2], current_page = Some 2,
       start_time = seconds 0, last_update = seconds 0,
       retry_attempts =
         [\<lparr> ra_attempt_number = 0, ra_timestamp = seconds 0, ra_error_type = UNKNOWN_ERROR,
             ra_error_message = py ''bad scan'', delay_before_retry = 0, ra_success = False \<rparr>],
       ps_config = [], ps_ocr_service = py ''dashscope'', ps_terminology_terms = [],
       ps_page_range = (1, 2), partial_results = [(IntKey 1, py ''A'')] \<rparr>"

definition first_message :: pystr where
  "first_message = partial_failure_message first_checkpoint 2"

definition failed_entry :: "cache_key CacheMetadata" where
  "failed_entry =
     (completed_entry CacheConfig_default job_key (py ''doc.pdf'', 10, 100, [37, 80, 68, 70])
        \<lparr> st_size = 10, st_mtime = 100, head_bytes = Some [37, 80, 68, 70] \<rparr>
        (seconds 0) (py ''input/doc.pdf'') [] (py ''dashscope'') [] (1, 2) [] 0)
     \<lparr>md_status := FAILED,
       md_error_message := Some (processing_failed_message (Exception first_message)),
       retry_count := 2\<rparr>"

definition after_first_run :: RetryManager where
  "after_first_run =
     \<lparr> rm_config = RetryConfig_default,
       cache_manager = \<lparr> cache_config = CacheConfig_default,
                         metadata = [(job_key, failed_entry)],
                         payload_files = Map.empty \<rparr>,
       state_dir = [job_key \<mapsto> first_checkpoint] \<rparr>"

text \<open>The state a new job starts from, the checkpoint as the second run loads it, and
  the state at the end of the second run.\<close>

definition new_state :: "datetime \<Rightarrow> ProcessingState" where
  "new_state now =
     \<lparr> ps_file_path = py ''input/doc.pdf'', ps_cache_key = job_key, total_pages = 2,
       completed_pages = [], failed_pages = [], current_page = None,
       start_time = now, last_update = now, retry_attempts = [],
       ps_config = [], ps_ocr_service = py ''dashscope'', ps_terminology_terms = [],
       ps_page_range = (1, 2), partial_results = [] \<rparr>"

definition loaded_checkpoint :: ProcessingState where
  "loaded_checkpoint = first_checkpoint\<lparr>partial_results := [(StrKey (py ''1''), py ''A'')]\<rparr>"

definition second_state :: ProcessingState where
  "second_state =
     loaded_checkpoint\<lparr>current_page := Some 2, last_update := seconds 60,
        completed_pages := [1, 2],
        partial_results := [(StrKey (py ''1''), py ''A''), (IntKey 2, py ''B'')],
        failed_pages := []\<rparr>"


section \<open>Properties of the backoff\<close>

lemma float_pow_two_small:
  assumes "0 \<le> n" "n \<le> 1023"
  shows "float_pow 2 n = Inr (2 ^ nat n)"
proof -
  have "(2::real) ^ nat n \<le> 2 ^ 1023"
    using assms by (intro power_increasing) auto
  also have "(2::real) ^ 1023 < 2 ^ 1024 - 2 ^ 970" by simp
  finally have "\<not> float_overflows (2 ^ nat n)"
    by (simp add: float_overflows_def)
  then show ?thesis using assms by (simp add: float_pow_def)
qed

lemma calculate_delay_formula:
  assumes "float_pow (exponential_base config) n = Inr p"
  shows "calculate_delay config n error_type rnd =
           Inr ((if jitter config then uniform 0.5 1.5 rnd else 1) *
                min (base_delay config * p * (if error_type = API_RATE_LIMIT then 2 else 1))
                    (max_delay config))"
  using assms by (simp add: calculate_delay_def Let_def)

lemma calculate_delay_capped:
  assumes "calculate_delay config n error_type rnd = Inr d" "\<not> jitter config"
  shows "d \<le> max_delay config"
  using assms by (auto simp: calculate_delay_def Let_def split: sum.splits)

lemma uniform_jitter_range:
  assumes "0 \<le> rnd" "rnd < 1"
  shows "0.5 \<le> uniform 0.5 1.5 rnd \<and> uniform 0.5 1.5 rnd \<le> 1.5"
  using assms by (simp add: uniform_def)

lemma calculate_delay_default_sequence:
  assumes "0 \<le> n" "n \<le> 1023" "error_type \<noteq> API_RATE_LIMIT"
  shows "calculate_delay (RetryConfig_default\<lparr>jitter := False\<rparr>) n error_type rnd
           = Inr (min (2 ^ nat n) 300)"
  using float_pow_two_small [OF assms(1,2)] assms(3)
  by (simp add: calculate_delay_def RetryConfig_default_def)

text \<open>
  C5.  The backoff computes \<open>base_delay * exponential_base ** attempt_number\<close> before it
  clamps, and the power raises \<open>OverflowError\<close> once it leaves the range of a double: with
  the default base 2.0 and jitter disabled, attempt 1024 returns no delay at all, for
  every error type.  Up to attempt 1023 the delays are 1, 2, 4, 8, ... capped at 300
  (\<open>calculate_delay_default_sequence\<close>).
\<close>

theorem calculate_delay_overflow:
  "calculate_delay (RetryConfig_default\<lparr>jitter := False\<rparr>) 1024 error_type rnd = Inl OverflowError"
  by (simp add: calculate_delay_def RetryConfig_default_def float_pow_def float_overflows_def)


section \<open>Properties of the circuit breaker\<close>

lemma call_attempt_failure_opens:
  assumes "func w = (Inl e, w')" "failure_threshold cb \<le> failure_count cb + 1"
  shows "state (fst (call_attempt cb now_fail func w)) = opened"
  using assms by (simp add: call_attempt_def Let_def)

lemma call_open_rejects:
  assumes "state cb = opened" "last_failure_time cb = Some t"
    "timedelta_seconds (now - t) < recovery_time cb"
  shows "call cb now now_fail func w = (cb, w, Inl circuit_open_exn)"
  using assms by (simp add: call_def)

lemma call_half_open_success_resets:
  assumes "state cb = opened" "last_failure_time cb = Some t"
    "recovery_time cb \<le> timedelta_seconds (now - t)" "func w = (Inr r, w')"
  shows "call cb now now_fail func w = (cb\<lparr>state := closed, failure_count := 0\<rparr>, w', Inr r)"
  using assms by (simp add: call_def call_attempt_def)

definition five_failures :: "CircuitBreaker \<times> nat" where
  "five_failures =
     calls (CircuitBreaker_init 5 300)
       [(seconds 0, seconds 0), (seconds 1, seconds 1), (seconds 2, seconds 2),
        (seconds 3, seconds 3), (seconds 4, seconds 4)] always_fails 0"

lemma five_failures_open:
  "five_failures =
     (\<lparr> failure_threshold = 5, recovery_time = 300, failure_count = 5,
        last_failure_time = Some (seconds 4), state = opened \<rparr>, 5)"
  by (simp add: five_failures_def CircuitBreaker_init_def call_def call_attempt_def
      always_fails_def seconds_def Let_def)

text \<open>
  C4.  After five consecutive failures through a breaker with threshold 5 and recovery
  time 300 s (the last one at second 4), the breaker is open.  A call made one day and ten
  seconds after the last failure, long after the 300 s have elapsed, is still rejected
  without invoking the wrapped function (the invocation count stays 5): the open-state check
  reads the \<open>seconds\<close> field of the elapsed time, which starts again from 0 every day, not
  the elapsed seconds.
\<close>

theorem call_rejected_after_recovery_time:
  "call (fst five_failures) (seconds (4 + 86400 + 10)) (seconds (4 + 86400 + 10))
        always_fails (snd five_failures)
     = (fst five_failures, 5, Inl circuit_open_exn)
   \<and> state (fst five_failures) = opened
   \<and> seconds 300 \<le> seconds (4 + 86400 + 10) - seconds 4"
  by (simp add: five_failures_open call_def timedelta_seconds_def seconds_def)


section \<open>Properties of the chunk planning\<close>

lemma plan_chunks_partition:
  assumes "1 \<le> w" "start \<le> pages + 1"
  shows "\<exists>new. plan_chunks pages w 0 a start n chunks = Some (chunks @ new)
               \<and> partition_from pages w start n new"
  using assms(2)
proof (induction "nat (pages + 1 - start)" arbitrary: start n chunks rule: less_induct)
  case less
  show ?case
  proof (cases "start \<le> pages")
    case False
    with less.prems have "start = pages + 1" by simp
    then show ?thesis by (subst plan_chunks.simps) simp
  next
    case True
    define e where "e = min (start + w - 1) pages"
    define c where "c = new_chunk n start e (e - start + 1) (of_int (e - start + 1) * a)"
    have e: "start \<le> e" "e \<le> pages" using True assms(1) by (auto simp: e_def)
    then have "nat (pages + 1 - (e + 1)) < nat (pages + 1 - start)" "e + 1 \<le> pages + 1"
      by auto
    from less.hyps [OF this] obtain new where
      new: "plan_chunks pages w 0 a (e + 1) (n + 1) (chunks @ [c]) = Some ((chunks @ [c]) @ new)"
           "partition_from pages w (e + 1) (n + 1) new"
      by blast
    have "plan_chunks pages w 0 a start n chunks = Some (chunks @ c # new)"
      using True new(1) by (subst plan_chunks.simps) (simp add: Let_def e_def c_def)
    moreover have "partition_from pages w start n (c # new)"
      using new(2) e by (auto simp: c_def new_chunk_def e_def)
    ultimately show ?thesis by blast
  qed
qed

lemma plan_chunks_terminates:
  assumes "overlap \<le> 0" "overlap < w"
  shows "\<exists>r. plan_chunks pages w overlap a start n chunks = Some r"
proof (induction "nat (pages + 1 - start)" arbitrary: start n chunks rule: less_induct)
  case less
  show ?case
  proof (cases "start \<le> pages")
    case False
    then show ?thesis by (subst plan_chunks.simps) simp
  next
    case True
    define e where "e = min (start + w - 1) pages"
    have "start < e + 1 - overlap" using True assms by (auto simp: e_def)
    with True have "nat (pages + 1 - (e + 1 - overlap)) < nat (pages + 1 - start)" by auto
    from less.hyps [OF this] show ?thesis
      using True by (subst plan_chunks.simps) (simp add: Let_def e_def)
  qed
qed

lemma plan_chunks_diverges:
  assumes "1 \<le> overlap" "start \<le> pages"
  shows "plan_chunks pages window overlap avg start n chunks = None"
proof (rule ccontr)
  assume "plan_chunks pages window overlap avg start n chunks \<noteq> None"
  then obtain r where r: "plan_chunks pages window overlap avg start n chunks = Some r" by auto
  have "\<not> (1 \<le> overlap \<and> start \<le> pages)"
  proof (rule plan_chunks.raw_induct
          [where P = "\<lambda>p w ov a s m cs r. \<not> (1 \<le> ov \<and> s \<le> p)", OF _ r], goal_cases)
    case (1 f p w ov a s m cs y)
    show ?case
    proof
      assume h: "1 \<le> ov \<and> s \<le> p"
      with 1(2) have "f p w ov a (min (s + w - 1) p + 1 - ov) (m + 1)
         (cs @ [new_chunk m s (min (s + w - 1) p) (min (s + w - 1) p - s + 1)
                 (of_int (min (s + w - 1) p - s + 1) * a)]) = Some y"
        by (simp add: Let_def)
      from 1(1)[OF this] h show False by auto
    qed
  qed
  with assms show False by simp
qed

lemma partition_from_ids:
  assumes "partition_from pages w s n cs" "i < length cs"
  shows "chunk_id (cs ! i) = py ''chunk_'' @ format_03d (n + int i)"
  using assms
proof (induction cs arbitrary: s n i)
  case Nil
  then show ?case by simp
next
  case (Cons c cs)
  show ?case
  proof (cases i)
    case 0
    with Cons.prems show ?thesis by simp
  next
    case (Suc j)
    with Cons.prems have "partition_from pages w (end_page c + 1) (n + 1) cs" "j < length cs"
      by simp_all
    from Cons.IH [OF this] have "chunk_id (cs ! j) = py ''chunk_'' @ format_03d (n + 1 + int j)" .
    moreover have "n + 1 + int j = n + int i" using Suc by simp
    ultimately show ?thesis using Suc by simp
  qed
qed

lemma partition_from_unit_length:
  assumes "partition_from pages 1 s n cs"
  shows "int (length cs) = pages + 1 - s"
  using assms
proof (induction cs arbitrary: s n)
  case Nil
  then show ?case by simp
next
  case (Cons c cs)
  then have e: "end_page c = s" and "partition_from pages 1 (end_page c + 1) (n + 1) cs"
    by auto
  from Cons.IH [OF this(2)] e show ?case by simp
qed

lemma format_03d_1000: "format_03d 1000 = py ''1000''"
  by (simp add: format_03d_def str_nat.simps py_def)

lemma format_03d_length:
  assumes "0 \<le> n" "n < 1000"
  shows "length (format_03d n) = 3"
proof -
  define m where "m = nat n"
  have m: "m < 1000" using assms by (simp add: m_def)
  have "length (str_nat m) \<le> 3"
  proof (cases "m < 10")
    case True
    then show ?thesis by (subst str_nat.simps) simp
  next
    case False
    show ?thesis
    proof (cases "m < 100")
      case True
      then have "m div 10 < 10" by simp
      with False show ?thesis
        by (subst str_nat.simps, subst str_nat.simps) simp
    next
      case f2: False
      from m have "m div 10 div 10 < 10" by simp
      moreover from f2 have "\<not> m div 10 < 10" by simp
      ultimately show ?thesis using False
        by (subst str_nat.simps, subst str_nat.simps, subst str_nat.simps) simp
    qed
  qed
  then show ?thesis using assms by (simp add: format_03d_def Let_def m_def)
qed

lemma split_by_pages_237: "split_by_pages SplitConfig_default (example_analysis 237) = 
   Some [new_chunk 1 1 50 50 25, new_chunk 2 51 100 50 25, new_chunk 3 101 150 50 25,
         new_chunk 4 151 200 50 25, new_chunk 5 201 237 37 (37 / 2)]"
  by (simp add: split_by_pages_def SplitConfig_default_def example_analysis_def plan_chunks.simps Let_def)


text \<open>
  C6 (as stated).  The ids are formatted with \<open>03d\<close>, which pads to three digits and does
  not cut: a 1000-page document split with \<open>max_pages_per_chunk = 1\<close> and no overlap gets
  1000 chunks, and the id of the last one is \<open>chunk_1000\<close>, four digits.
\<close>

theorem split_by_pages_id_counterexample:
  "length (chunk_ids (split_by_pages (SplitConfig_default\<lparr>max_pages_per_chunk := 1\<rparr>)
                        (example_analysis 1000))) = 1000
   \<and> chunk_ids (split_by_pages (SplitConfig_default\<lparr>max_pages_per_chunk := 1\<rparr>)
                   (example_analysis 1000)) ! 999 = py ''chunk_1000''"
proof -
  obtain cs where cs:
    "plan_chunks 1000 1 0 (1 / 2) 1 1 [] = Some ([] @ cs)" "partition_from 1000 1 1 1 cs"
    using plan_chunks_partition [of 1 1 1000 "1 / 2" 1 "[]"] by auto
  from partition_from_unit_length [OF cs(2)] have len: "length cs = 1000" by simp
  then have "chunk_id (cs ! 999) = py ''chunk_'' @ format_03d (1 + int 999)"
    by (intro partition_from_ids [OF cs(2)]) simp
  then have "chunk_id (cs ! 999) = py ''chunk_1000''"
    by (simp add: format_03d_1000 py_def)
  with len cs(1) show ?thesis
    by (simp add: chunk_ids_def split_by_pages_def SplitConfig_default_def example_analysis_def)
qed


text \<open>
  C6 (amended).  For a document of at least one page, a window \<open>max_pages_per_chunk\<close> of
  at least one page and no overlap, \<open>_split_by_pages\<close> returns, and its chunks partition
  the pages \<open>1 .. page_count\<close>: the first starts at page 1, each next one starts right
  after the previous one ends, the last ends at \<open>page_count\<close>, each holds between 1 and
  \<open>max_pages_per_chunk\<close> pages, and chunk number \<open>n\<close> (from 1) has the id \<open>chunk_\<close>
  followed by \<open>n\<close> padded with zeros to at least three digits (exactly three up to 999,
  \<open>format_03d_length\<close>).  A 237-page document with windows of 50 pages gets the five
  chunks 1-50, 51-100, 101-150, 151-200, 201-237.
\<close>

theorem split_by_pages_partition:
  assumes "1 \<le> an_page_count an" "1 \<le> max_pages_per_chunk config" "overlap_pages config = 0"
  shows "(\<exists>chunks. split_by_pages config an = Some chunks \<and> chunks \<noteq> []
            \<and> partition_from (an_page_count an) (max_pages_per_chunk config) 1 1 chunks)
         \<and> split_by_pages SplitConfig_default (example_analysis 237) =
             Some [new_chunk 1 1 50 50 25, new_chunk 2 51 100 50 25, new_chunk 3 101 150 50 25,
                   new_chunk 4 151 200 50 25, new_chunk 5 201 237 37 (37 / 2)]"
proof -
  obtain new where new:
    "plan_chunks (an_page_count an) (max_pages_per_chunk config) 0 (an_avg_page_size_mb an) 1 1 []
       = Some ([] @ new)"
    "partition_from (an_page_count an) (max_pages_per_chunk config) 1 1 new"
    using plan_chunks_partition [OF assms(2), of 1 "an_page_count an" "an_avg_page_size_mb an" 1 "[]"]
      assms(1) by auto
  from new(2) assms(1) have "new \<noteq> []" by (cases new) auto
  with new assms(3) have "\<exists>chunks. split_by_pages config an = Some chunks \<and> chunks \<noteq> []
            \<and> partition_from (an_page_count an) (max_pages_per_chunk config) 1 1 chunks"
    by (simp add: split_by_pages_def)
  then show ?thesis using split_by_pages_237 by blast
qed

theorem split_by_pages_partition_witness:
  "1 \<le> an_page_count (example_analysis 237)
   \<and> 1 \<le> max_pages_per_chunk SplitConfig_default
   \<and> overlap_pages SplitConfig_default = 0
   \<and> (\<exists>chunks. split_by_pages SplitConfig_default (example_analysis 237) = Some chunks
          \<and> chunks \<noteq> [] \<and> partition_from 237 50 1 1 chunks)"
proof -
  have h: "1 \<le> an_page_count (example_analysis 237)" "1 \<le> max_pages_per_chunk SplitConfig_default"
    "overlap_pages SplitConfig_default = 0"
    by (simp_all add: example_analysis_def SplitConfig_default_def)
  have v: "an_page_count (example_analysis 237) = 237" "max_pages_per_chunk SplitConfig_default = 50"
    by (simp_all add: example_analysis_def SplitConfig_default_def)
  from split_by_pages_partition [OF h] have
    "\<exists>chunks. split_by_pages SplitConfig_default (example_analysis 237) = Some chunks
        \<and> chunks \<noteq> []
        \<and> partition_from (an_page_count (example_analysis 237))
              (max_pages_per_chunk SplitConfig_default) 1 1 chunks"
    by blast
  then have "\<exists>chunks. split_by_pages SplitConfig_default (example_analysis 237) = Some chunks
        \<and> chunks \<noteq> [] \<and> partition_from 237 50 1 1 chunks"
    unfolding v .
  with h show ?thesis by blast
qed

text \<open>
  C10.  With any overlap of one page or more the planning loops never return: the last
  window always ends at the last page, so the next start \<open>end_page + 1 - overlap_pages\<close> is
  no later than the last page and the loop condition stays true
  (\<open>plan_chunks_diverges\<close>).  For a 10-page document and \<open>overlap_pages = 1\<close> the windows
  are 50 (\<open>_split_by_pages\<close>), 200 (\<open>_split_by_size\<close>) and 73 (\<open>_split_by_memory\<close>) pages,
  all larger than the overlap, and none of the three loops terminates.  With
  \<open>overlap_pages \<le> 0\<close> below the window they do (\<open>plan_chunks_terminates\<close>).
\<close>

theorem split_loops_diverge_with_overlap:
  "split_by_pages (SplitConfig_default\<lparr>overlap_pages := 1\<rparr>) (example_analysis 10) = None
   \<and> split_by_size (SplitConfig_default\<lparr>overlap_pages := 1\<rparr>) (example_analysis 10) = None
   \<and> split_by_memory (SplitConfig_default\<lparr>overlap_pages := 1\<rparr>) (example_analysis 10) = None"
  by (simp add: split_by_pages_def split_by_size_def split_by_memory_def Let_def
      SplitConfig_default_def example_analysis_def plan_chunks_diverges)


section \<open>Properties of the merge\<close>














lemma str_int_example: "str_int 1 = py ''1''" "str_int 2 = py ''2''"
  by (simp_all add: str_int_def str_nat.simps py_def)








section \<open>Properties of the text-correction stage\<close>

lemma correct_text_with_gemini_never_raises:
  "\<exists>result. fst (correct_text_with_gemini h t create ocr_text terms w) = Inr result"
  by (auto simp: correct_text_with_gemini_def Let_def split: prod.splits sum.splits)

lemma streaming_without_credentials:
  assumes "key = [] \<or> url = []"
  shows "correct_text_with_gemini_streaming key url h t create generate text terms w
           = ((text, zero_usage), w)"
  using assms by (simp add: correct_text_with_gemini_streaming_def)

lemma streaming_primary_failure:
  assumes "key \<noteq> []" "url \<noteq> []" "create (h @ terminology_instruction terms @ t @ text) w = (Inl e, w')"
  shows "correct_text_with_gemini_streaming key url h t create generate text terms w
           = ((text, []), w')"
  using assms
  by (simp add: correct_text_with_gemini_streaming_def correct_text_with_gemini_def)


text \<open>
  C9.  With both credentials set and a third-party service that raises, the stage returns
  the original text with the empty usage dictionary \<open>{}\<close>, not with the three zero
  counters, and the official service is never called (the only network call made is the
  third-party one): \<open>correct_text_with_gemini\<close> catches every exception itself and returns
  \<open>(ocr_text, {})\<close>, so the handler in \<open>correct_text_with_gemini_streaming\<close> that holds the
  fallback, and the zero counters after it, is never entered.  The stage does not raise, and
  without credentials it returns the text and the zero counters without any call
  (\<open>streaming_without_credentials\<close>).
\<close>

theorem streaming_fallback_never_attempted:
  "correct_text_with_gemini_streaming (py ''key'') (py ''https://gemini.example/v1'') h t
       failing_create failing_generate text terms []
     = ((text, []), [ThirdPartyCall])
   \<and> ([] :: usage) \<noteq> zero_usage"
  by (simp add: correct_text_with_gemini_streaming_def correct_text_with_gemini_def
      failing_create_def zero_usage_def py_def)


section \<open>Properties of the image preprocessor\<close>

lemma swap_channels_twice: "swap_channels (swap_channels rows) = rows"
proof -
  have "(\<lambda>(a, b, c). (c, b, a)) \<circ> (\<lambda>(a, b, c). (c, b, a)) = (id :: nat \<times> nat \<times> nat \<Rightarrow> _)"
    by (auto simp: fun_eq_iff)
  then show ?thesis by (simp add: swap_channels_def)
qed

lemma swap_channels_empty: "raster_empty (swap_channels rows) = raster_empty rows"
  by (induction rows) (simp_all add: raster_empty_def swap_channels_def)

lemma pil_to_cv2_L_or_RGB:
  assumes "is_L_or_RGB img" and "\<not> image_empty img"
  shows "\<exists>cv_image. pil_to_cv2 ops img = Inr cv_image \<and> cv2_to_pil cv_image = Inr img
           \<and> is_colour cv_image = (\<not> is_L img)"
  using assms
  by (cases img) (simp_all add: then_do_def cvtColor_def swap_channels_twice swap_channels_empty)

text \<open>The conversion of an RGB image without pixels raises, whatever the configuration.\<close>

lemma preprocess_image_empty_RGB:
  "fst (preprocess_image ops self_config (ImageRGB []) config) = Inl cv2_error"
  by (simp add: preprocess_image_def then_do_def cvtColor_def raster_empty_def)


text \<open>
  C8 (as stated).  Mode \<open>none\<close> with every other setting at its default, on a one-pixel
  RGBA image: the conversion to the OpenCV format drops the alpha channel, and the image that
  comes back has mode RGB.  No filter is involved.
\<close>

theorem preprocess_image_none_rgba_counterexample:
  "map_sum id fst
     (fst (preprocess_image identity_operations PreprocessingConfig_default
             (ImageRGBA [[(10, 20, 30, 128)]]) (Some (create_preprocessor_config NONE))))
     = Inr (ImageRGB [[(10, 20, 30)]])
   \<and> ImageRGB [[(10, 20, 30)]] \<noteq> ImageRGBA [[(10, 20, 30, 128)]]"
  by (simp add: preprocess_image_def create_preprocessor_config_def PreprocessingConfig_default_def
      apply_mode_preset_def Let_def swap_channels_def drop_alpha_swap_def then_do_def
      cvtColor_def raster_empty_def filter_step_def)


text \<open>
  C8 (amended).  For every input image of mode L or RGB that has at least one pixel, with
  mode \<open>none\<close>, binarization off, grayscale off (or a mode L image) and \<open>output_dpi = 300\<close>
  in the configuration used, \<open>preprocess_image\<close> returns (it does not raise) the input
  image, pixel for pixel, and an empty \<open>operations_applied\<close> list, whatever the filters do.
  The preset of mode \<open>none\<close> switches off the five feature flags only; binarization,
  grayscale conversion and the DPI adjustment follow their own settings.  An RGB image of
  width or height 0 makes \<open>cv2.cvtColor\<close> raise (lemma \<open>preprocess_image_empty_RGB\<close>).
\<close>

theorem preprocess_image_none_identity:
  assumes "mode (effective_config self_config config) = NONE"
    and "\<not> binarization (effective_config self_config config)"
    and "\<not> grayscale (effective_config self_config config) \<or> is_L img"
    and "output_dpi (effective_config self_config config) = 300"
    and "is_L_or_RGB img"
    and "\<not> image_empty img"
  shows "\<exists>stats. fst (preprocess_image ops self_config img config) = Inr (img, stats)
                 \<and> operations_applied stats = []"
proof -
  define c where "c = effective_config self_config config"
  obtain cv_image where cv: "pil_to_cv2 ops img = Inr cv_image" "cv2_to_pil cv_image = Inr img"
    "is_colour cv_image = (\<not> is_L img)"
    using pil_to_cv2_L_or_RGB [OF assms(5,6)] by blast
  have g: "\<not> (grayscale c \<and> is_colour cv_image)"
    using assms(3) cv(3) by (auto simp: c_def)
  have p: "apply_mode_preset c =
             c\<lparr>enable_noise_reduction := False, enable_sharpening := False,
               enable_contrast_enhancement := False, enable_deskewing := False,
               enable_perspective_correction := False\<rparr>"
    using assms(1) by (simp add: apply_mode_preset_def c_def)
  have "fst (preprocess_image ops self_config img config) =
          Inr (img, \<lparr> original_size = image_size img, operations_applied = [],
                      processed_size = image_size img,
                      quality_score = calculate_quality_score ops cv_image \<rparr>)"
    unfolding preprocess_image_def effective_config_def [symmetric] c_def [symmetric]
    using g assms(2,4)
    by (auto simp: p cv(1,2) Let_def c_def [symmetric] then_do_def filter_step_def)
  then show ?thesis by simp
qed


theorem preprocess_image_none_identity_witness:
  "mode (effective_config PreprocessingConfig_default (Some (create_preprocessor_config NONE))) = NONE
   \<and> \<not> binarization (effective_config PreprocessingConfig_default (Some (create_preprocessor_config NONE)))
   \<and> \<not> grayscale (effective_config PreprocessingConfig_default (Some (create_preprocessor_config NONE)))
   \<and> output_dpi (effective_config PreprocessingConfig_default (Some (create_preprocessor_config NONE))) = 300
   \<and> is_L_or_RGB (ImageRGB [[(10, 20, 30)]])
   \<and> \<not> image_empty (ImageRGB [[(10, 20, 30)]])
   \<and> (\<exists>stats. fst (preprocess_image identity_operations PreprocessingConfig_default
                       (ImageRGB [[(10, 20, 30)]]) (Some (create_preprocessor_config NONE)))
                = Inr (ImageRGB [[(10, 20, 30)]], stats)
              \<and> operations_applied stats = [])"
proof -
  let ?c = "effective_config PreprocessingConfig_default (Some (create_preprocessor_config NONE))"
  have h: "mode ?c = NONE" "\<not> binarization ?c" "\<not> grayscale ?c \<or> is_L (ImageRGB [[(10, 20, 30)]])"
    "output_dpi ?c = 300" "is_L_or_RGB (ImageRGB [[(10, 20, 30)]])"
    "\<not> image_empty (ImageRGB [[(10, 20, 30)]])"
    by (simp_all add: effective_config_def create_preprocessor_config_def
        PreprocessingConfig_default_def raster_empty_def)
  have g: "\<not> grayscale ?c"
    by (simp add: effective_config_def create_preprocessor_config_def
        PreprocessingConfig_default_def)
  from preprocess_image_none_identity [OF h, of identity_operations] h(1,2,4,5,6) g
  show ?thesis by blast
qed


section \<open>Properties of the cache cleanup\<close>

lemma scan_entries_keys:
  "fst (scan_entries self now items acc stats) =
     acc @ map fst (filter (\<lambda>item. should_remove self now item \<noteq> None) items)"
  by (induction items arbitrary: acc stats) (auto split: option.splits)

lemma remove_entries_metadata:
  "metadata (fst (remove_entries keys self stats)) =
     filter (\<lambda>item. fst item \<notin> set keys) (metadata self)"
proof (induction keys arbitrary: self stats)
  case Nil
  then show ?case by simp
next
  case (Cons k keys)
  have "AList.delete k (metadata self) = filter (\<lambda>item. fst item \<noteq> k) (metadata self)"
    by (auto simp: AList.delete_eq intro: filter_cong)
  then show ?case by (simp add: Cons.IH conj_commute)
qed

lemma first_pass_filter:
  assumes "distinct (map fst md)"
  shows "filter (\<lambda>item. fst item \<notin> set (map fst (filter P md))) md = filter (\<lambda>item. \<not> P item) md"
proof (rule filter_cong [OF refl])
  fix item assume i: "item \<in> set md"
  have "fst item \<in> set (map fst (filter P md)) \<longleftrightarrow> P item"
  proof
    assume "fst item \<in> set (map fst (filter P md))"
    then obtain other where o: "other \<in> set md" "P other" "fst other = fst item" by auto
    with i assms have "other = item"
      by (metis eq_key_imp_eq_value prod.collapse)
    with o show "P item" by simp
  next
    assume "P item"
    with i show "fst item \<in> set (map fst (filter P md))" by force
  qed
  then show "(fst item \<notin> set (map fst (filter P md))) = (\<not> P item)" by simp
qed

text \<open>What cleanup leaves when the second stage runs.\<close>

lemma cleanup_metadata_secondary:
  assumes d: "distinct (map fst (metadata self))"
    and over: "max_entries (cache_config self) < int (length (first_pass_kept self now))"
    and keep: "0 \<le> min (max_entries (cache_config self)) (preserve_recent (cache_config self))"
  shows "metadata (snd (cleanup self now)) =
           filter (\<lambda>item. item \<in> set (take (nat (min (max_entries (cache_config self))
                                                      (preserve_recent (cache_config self))))
                                        (sorted_reverse (\<lambda>x. last_accessed (snd x))
                                           (first_pass_kept self now))))
                  (metadata self)"
proof -
  define md where "md = metadata self"
  define P where "P = (\<lambda>item. should_remove self now item \<noteq> None)"
  define T where "T = map fst (filter P md)"
  define R where "R = first_pass_kept self now"
  define S where "S = sorted_reverse (\<lambda>x. last_accessed (snd x)) R"
  define kc where "kc = nat (min (max_entries (cache_config self)) (preserve_recent (cache_config self)))"
  obtain stats0 where scan: "scan_entries self now md [] stats_zero = (T, stats0)"
    using scan_entries_keys [of self now md "[]" stats_zero]
    by (cases "scan_entries self now md [] stats_zero") (simp add: T_def P_def)
  have R: "R = filter (\<lambda>item. \<not> P item) md"
    by (simp add: R_def first_pass_kept_def P_def md_def)
  have RT: "filter (\<lambda>(k, v). k \<notin> set T) md = R"
    using first_pass_filter [OF d [folded md_def], of P]
    by (simp add: R T_def case_prod_unfold)
  have len: "int (length md) - int (length T) = int (length R)"
  proof -
    have "length md = length (filter P md) + length (filter (\<lambda>item. \<not> P item) md)"
      by (rule sum_length_filter_compl [symmetric])
    then show ?thesis by (simp add: T_def R)
  qed
  have sl: "slice_from (min (max_entries (cache_config self)) (preserve_recent (cache_config self))) S = drop kc S"
    using keep by (simp add: slice_from_def kc_def)
  obtain self' stats' where rm:
    "remove_entries (T @ map fst (drop kc S)) self
        (stats0\<lparr>removed_old := removed_old stats0 + int (length (drop kc S))\<rparr>) = (self', stats')"
    by (cases "remove_entries (T @ map fst (drop kc S)) self
        (stats0\<lparr>removed_old := removed_old stats0 + int (length (drop kc S))\<rparr>)") blast
  have over': "max_entries (cache_config self) < int (length (metadata self)) - int (length T)"
    using over len by (simp add: md_def R_def)
  have c: "cleanup self now = (stats', self')"
    unfolding cleanup_def scan [unfolded md_def] Let_def prod.case
    using over' rm
    by (simp add: RT [unfolded md_def] S_def [symmetric] sl)
  have m': "metadata self' = filter (\<lambda>item. fst item \<notin> set (T @ map fst (drop kc S))) md"
    using remove_entries_metadata [of "T @ map fst (drop kc S)" self
        "stats0\<lparr>removed_old := removed_old stats0 + int (length (drop kc S))\<rparr>"]
    unfolding rm by (simp add: md_def)
  have setS: "set S = set R" by (simp add: S_def sorted_reverse_def)
  have dR: "distinct (map fst R)" using d by (simp add: R md_def distinct_map_filter)
  have dS: "distinct (map fst S)"
    using dR by (simp add: distinct_map S_def sorted_reverse_def)
  have "filter (\<lambda>item. fst item \<notin> set (T @ map fst (drop kc S))) md
          = filter (\<lambda>item. item \<in> set (take kc S)) md"
  proof (rule filter_cong [OF refl])
    fix item assume i: "item \<in> set md"
    show "(fst item \<notin> set (T @ map fst (drop kc S))) = (item \<in> set (take kc S))"
    proof (cases "P item")
      case True
      then have "fst item \<in> set T" using i by (force simp: T_def)
      moreover have "item \<notin> set R" using True by (simp add: R)
      then have "item \<notin> set (take kc S)" using setS in_set_takeD [of item kc S] by auto
      ultimately show ?thesis by simp
    next
      case False
      then have iR: "item \<in> set R" using i by (simp add: R)
      have nT: "fst item \<notin> set T"
      proof
        assume "fst item \<in> set T"
        then obtain other where o: "other \<in> set md" "P other" "fst other = fst item"
          by (auto simp: T_def)
        with i d have "other = item"
          by (metis eq_key_imp_eq_value prod.collapse md_def)
        with o False show False by simp
      qed
      have iS: "item \<in> set (take kc S) \<or> item \<in> set (drop kc S)"
        using iR setS by (metis Un_iff append_take_drop_id set_append)
      have "fst item \<in> set (map fst (drop kc S)) \<longleftrightarrow> item \<notin> set (take kc S)"
      proof
        assume a: "fst item \<in> set (map fst (drop kc S))"
        show "item \<notin> set (take kc S)"
        proof
          assume b: "item \<in> set (take kc S)"
          have "distinct (map fst (take kc S) @ map fst (drop kc S))"
            using dS by (metis append_take_drop_id map_append)
          then have "set (map fst (take kc S)) \<inter> set (map fst (drop kc S)) = {}"
            by simp
          moreover from b have "fst item \<in> set (map fst (take kc S))" by simp
          ultimately show False using a by blast
        qed
      next
        assume "item \<notin> set (take kc S)"
        with iS show "fst item \<in> set (map fst (drop kc S))" by simp
      qed
      with nT show ?thesis by simp
    qed
  qed
  with m' c show ?thesis
    by (simp add: md_def S_def R_def kc_def)
qed


lemma sorted_reverse_split:
  assumes "x \<in> set (take n (sorted_reverse f xs))" "y \<in> set (drop n (sorted_reverse f xs))"
  shows "f y \<le> f x"
proof -
  define A where "A = sort_key f (rev xs)"
  define m where "m = length A - n"
  have "sorted (map f A)" by (simp add: A_def)
  then have "sorted (map f (take m A) @ map f (drop m A))"
    by (metis append_take_drop_id map_append)
  then have le: "\<forall>a \<in> set (take m A). \<forall>b \<in> set (drop m A). f a \<le> f b"
    by (auto simp: sorted_append)
  have "take n (rev A) = rev (drop m A)" "drop n (rev A) = rev (take m A)"
    by (simp_all add: take_rev drop_rev m_def)
  with assms have "x \<in> set (drop m A)" "y \<in> set (take m A)"
    by (simp_all add: sorted_reverse_def A_def)
  with le show ?thesis by blast
qed

lemma cleanup_remaining_length:
  assumes d: "distinct (map fst (metadata self))"
    and over: "max_entries (cache_config self) < int (length (first_pass_kept self now))"
    and keep: "0 \<le> min (max_entries (cache_config self)) (preserve_recent (cache_config self))"
  shows "int (length (metadata (snd (cleanup self now)))) =
           min (max_entries (cache_config self)) (preserve_recent (cache_config self))"
proof -
  define R where "R = first_pass_kept self now"
  define S where "S = sorted_reverse (\<lambda>x. last_accessed (snd x)) R"
  define kc where "kc = nat (min (max_entries (cache_config self)) (preserve_recent (cache_config self)))"
  have m: "metadata (snd (cleanup self now)) = filter (\<lambda>item. item \<in> set (take kc S)) (metadata self)"
    using cleanup_metadata_secondary [OF d over keep] by (simp add: R_def S_def kc_def)
  have dm: "distinct (metadata self)" using d by (simp add: distinct_map)
  have "set R \<subseteq> set (metadata self)" by (auto simp: R_def first_pass_kept_def)
  moreover have setS: "set S = set R" by (simp add: S_def sorted_reverse_def)
  ultimately have sub: "set (take kc S) \<subseteq> set (metadata self)"
    using set_take_subset [of kc S] by blast
  have dS: "distinct S" using dm by (simp add: S_def sorted_reverse_def R_def first_pass_kept_def)
  have lenS: "length S = length R" by (simp add: S_def sorted_reverse_def)
  have "kc \<le> length S" using over keep by (simp add: kc_def lenS R_def)
  then have lt: "length (take kc S) = kc" by simp
  have "set (metadata (snd (cleanup self now))) = set (take kc S)"
    using sub by (auto simp: m)
  moreover have "distinct (metadata (snd (cleanup self now)))" using dm by (simp add: m)
  ultimately have "length (metadata (snd (cleanup self now))) = card (set (take kc S))"
    by (metis distinct_card)
  also have "\<dots> = length (take kc S)" using dS by (simp add: distinct_card)
  finally show ?thesis using lt keep by (simp add: kc_def)
qed




lemma update_new_key:
  "k \<notin> fst ` set al \<Longrightarrow> AList.update k v al = al @ [(k, v)]"
  by (induction al) auto

lemma page_key_inj: "page_key config i = page_key config j \<longleftrightarrow> i = j"
  by (auto simp: page_key_def)

lemma fst_page_item: "fst (page_item config i) = page_key config i"
  by (simp add: page_item_def)

lemma page_items_sorted:
  "sorted (map (\<lambda>x. last_accessed (snd x)) (map (page_item config) [lo..<hi]))"
proof -
  have e: "(\<lambda>x. last_accessed (snd x)) \<circ> page_item config = (\<lambda>i. seconds (int i))"
    by (simp add: page_item_def completed_entry_def fun_eq_iff)
  have "sorted (map (\<lambda>i. seconds (int i)) [lo..<hi])"
    by (simp add: sorted_map seconds_def sorted_wrt_mono_rel [OF _ sorted_wrt_upt [of lo hi]])
  then show ?thesis unfolding map_map e .
qed

lemma page_generate_cache_key:
  "generate_cache_key self (pdf_at 100) (py ''input/doc.pdf'') [] (py ''dashscope'') []
       (int i + 1, int i + 1) = Inr (page_key (cache_config self) i)"
  by (simp add: generate_cache_key_def calculate_file_hash_def pdf_at_def path_name_def py_def
      config_str_def page_key_def)

lemma page_file:
  "pdf_at 100 (py ''input/doc.pdf'')
     = Some \<lparr> st_size = 10, st_mtime = 100, head_bytes = Some [37, 80, 68, 70] \<rparr>"
  "calculate_file_hash (pdf_at 100) (py ''input/doc.pdf'') = Inr (py ''doc.pdf'', 10, 100, [37, 80, 68, 70])"
  by (simp_all add: pdf_at_def calculate_file_hash_def path_name_def py_def)

lemma text_length: "int (length (py ''text'')) = 4"
  by (simp add: py_def)

text \<open>One more page cached: the new entry goes to the end of the dictionary, and when the
  dictionary is then over \<open>max_entries\<close> its first entry, the least recently accessed, goes.\<close>

lemma set_cache_page:
  assumes m: "metadata self = map (page_item (cache_config self)) [lo..<n]" and lo: "lo \<le> n"
    and M: "0 \<le> max_entries (cache_config self)"
    and len: "int (n - lo) \<le> max_entries (cache_config self)"
  shows "set_cache (\<lambda>text. int (length text)) self (pdf_at 100) (seconds (int n))
            (py ''input/doc.pdf'') [] (py ''dashscope'') [] (int n + 1, int n + 1) (py ''text'') 0
         = (True,
            if int (n - lo) < max_entries (cache_config self)
            then self\<lparr>payload_files := (payload_files self)
                        (page_key (cache_config self) n \<mapsto> \<lparr> pickled = Some (py ''text''), st_bytes = 4 \<rparr>),
                      metadata := map (page_item (cache_config self)) [lo..<Suc n]\<rparr>
            else self\<lparr>payload_files := ((payload_files self)
                        (page_key (cache_config self) n \<mapsto> \<lparr> pickled = Some (py ''text''), st_bytes = 4 \<rparr>))
                        (page_key (cache_config self) lo := None),
                      metadata := map (page_item (cache_config self)) [Suc lo..<Suc n]\<rparr>)"
proof -
  define c where "c = cache_config self"
  define p where "p = (payload_files self)
                        (page_key c n \<mapsto> \<lparr> pickled = Some (py ''text''), st_bytes = 4 \<rparr>)"
  have new: "page_key c n \<notin> fst ` set (metadata self)"
    by (auto simp: m c_def fst_page_item page_key_inj)
  have up: "AList.update (page_key c n)
              (completed_entry c (page_key c n) (py ''doc.pdf'', 10, 100, [37, 80, 68, 70])
                 \<lparr> st_size = 10, st_mtime = 100, head_bytes = Some [37, 80, 68, 70] \<rparr>
                 (seconds (int n)) (py ''input/doc.pdf'') [] (py ''dashscope'') []
                 (int n + 1, int n + 1) (py ''text'') 0)
              (metadata self)
              = map (page_item c) [lo..<Suc n]"
    using update_new_key [OF new] lo by (simp add: m c_def page_item_def)
  define s1 where "s1 = self\<lparr>payload_files := p, metadata := map (page_item c) [lo..<Suc n]\<rparr>"
  have l1: "length (metadata s1) = Suc n - lo" by (simp add: s1_def del: upt_Suc)
  have sc: "set_cache (\<lambda>text. int (length text)) self (pdf_at 100) (seconds (int n))
              (py ''input/doc.pdf'') [] (py ''dashscope'') [] (int n + 1, int n + 1) (py ''text'') 0
            = (if max_entries c < int (Suc n - lo)
               then (case cleanup_old_entries s1 of
                       (None, self) \<Rightarrow> (True, self) | (Some e, self) \<Rightarrow> (False, self))
               else (True, s1))"
    unfolding set_cache_def page_generate_cache_key Let_def
    using up lo
    by (simp add: page_file c_def [symmetric] s1_def p_def text_length del: upt_Suc)
  show ?thesis
  proof (cases "int (n - lo) < max_entries c")
    case True
    then have "\<not> max_entries c < int (Suc n - lo)" using lo by simp
    with True show ?thesis
      unfolding sc by (simp add: s1_def p_def c_def del: upt_Suc)
  next
    case False
    with len have eq: "max_entries c = int (n - lo)" by (simp add: c_def)
    then have over: "max_entries c < int (Suc n - lo)" using lo by simp
    have srt: "sort_key (\<lambda>x. last_accessed (snd x)) (metadata s1) = metadata s1"
      using sort_key_id_if_sorted [OF page_items_sorted, of c lo "Suc n"]
      by (simp add: s1_def del: upt_Suc)
    have rc: "int (length (metadata s1)) - max_entries c = 1"
      using eq lo by (simp add: l1)
    have cs: "cache_config s1 = c" by (simp add: s1_def c_def)
    have tk: "take (Suc 0) (metadata s1) = [page_item c lo]"
      using lo by (simp add: s1_def upt_conv_Cons del: upt_Suc)
    have co: "cleanup_old_entries s1 = (None, unlink_entries [page_key c lo] s1)"
      unfolding cleanup_old_entries_def Let_def srt cs rc
      using over lo by (simp add: l1 tk fst_page_item del: upt_Suc)
    have del: "AList.delete (page_key c lo) (map (page_item c) [lo..<Suc n])
                 = map (page_item c) [Suc lo..<Suc n]"
    proof -
      have "AList.delete (page_key c lo) (map (page_item c) [lo..<Suc n])
              = filter (\<lambda>item. fst item \<noteq> page_key c lo) (map (page_item c) [lo..<Suc n])"
        by (auto simp: AList.delete_eq intro: filter_cong)
      also have "\<dots> = map (page_item c) (filter (\<lambda>i. i \<noteq> lo) [lo..<Suc n])"
        by (simp add: filter_map comp_def fst_page_item page_key_inj del: upt_Suc)
      also have "filter (\<lambda>i. i \<noteq> lo) [lo..<Suc n] = [Suc lo..<Suc n]"
        using lo by (simp add: upt_conv_Cons [of lo "Suc n"] del: upt_Suc)
      finally show ?thesis .
    qed
    have un: "unlink_entries [page_key c lo] s1 =
                self\<lparr>payload_files := p(page_key c lo := None),
                     metadata := map (page_item c) [Suc lo..<Suc n]\<rparr>"
      by (simp add: s1_def del del: upt_Suc)
    show ?thesis
      unfolding sc co un using over False
      by (simp add: c_def [symmetric] p_def del: upt_Suc)
  qed
qed


lemma cache_pages_state:
  assumes e: "metadata self = []" and M: "0 \<le> max_entries (cache_config self)"
  shows "cache_config (cache_pages self n) = cache_config self
    \<and> metadata (cache_pages self n) =
        map (page_item (cache_config self)) [n - min n (nat (max_entries (cache_config self)))..<n]
    \<and> (\<forall>i. n - min n (nat (max_entries (cache_config self))) \<le> i \<and> i < n \<longrightarrow>
           payload_files (cache_pages self n) (page_key (cache_config self) i) \<noteq> None)"
proof (induction n)
  case 0
  show ?case by (simp add: e)
next
  case (Suc n)
  define c where "c = cache_config self"
  define s where "s = cache_pages self n"
  define lo where "lo = n - min n (nat (max_entries c))"
  from Suc have cs: "cache_config s = c" and ms: "metadata s = map (page_item c) [lo..<n]"
    and ps: "\<And>i. lo \<le> i \<Longrightarrow> i < n \<Longrightarrow> payload_files s (page_key c i) \<noteq> None"
    by (simp_all add: c_def s_def lo_def)
  have lo: "lo \<le> n" by (simp add: lo_def)
  have len: "int (n - lo) \<le> max_entries c"
    using M by (simp add: lo_def c_def)
  note sc = set_cache_page [of s lo n, unfolded cs, OF ms lo M [folded c_def] len]
  show ?case
  proof (cases "int (n - lo) < max_entries c")
    case True
    then have lt: "n < nat (max_entries c)" by (simp add: lo_def)
    then have l0: "lo = 0" "Suc n - min (Suc n) (nat (max_entries c)) = 0" by (simp_all add: lo_def)
    have r: "cache_pages self (Suc n) =
               s\<lparr>payload_files := (payload_files s)
                     (page_key c n \<mapsto> \<lparr> pickled = Some (py ''text''), st_bytes = 4 \<rparr>),
                 metadata := map (page_item c) [lo..<Suc n]\<rparr>"
      using True by (simp add: s_def [symmetric] sc del: upt_Suc)
    show ?thesis
      unfolding c_def [symmetric] r l0(2)
      using ps by (auto simp: cs l0(1) page_key_inj less_Suc_eq simp del: upt_Suc)
  next
    case False
    then have ge: "nat (max_entries c) \<le> n" using M by (simp add: lo_def c_def)
    then have l1: "lo = n - nat (max_entries c)"
      "Suc n - min (Suc n) (nat (max_entries c)) = Suc lo" by (simp_all add: lo_def)
    have r: "cache_pages self (Suc n) =
               s\<lparr>payload_files := ((payload_files s)
                     (page_key c n \<mapsto> \<lparr> pickled = Some (py ''text''), st_bytes = 4 \<rparr>))
                     (page_key c lo := None),
                 metadata := map (page_item c) [Suc lo..<Suc n]\<rparr>"
      using False by (simp add: s_def [symmetric] sc del: upt_Suc)
    show ?thesis
      unfolding c_def [symmetric] r l1(2)
      using ps by (auto simp: cs page_key_inj less_Suc_eq simp del: upt_Suc)
  qed
qed

lemma page_keys_distinct: "distinct (map fst (map (page_item config) [lo..<hi]))"
proof -
  have "map fst (map (page_item config) [lo..<hi]) = map (page_key config) [lo..<hi]"
    by (simp add: fst_page_item)
  moreover have "distinct (map (page_key config) [lo..<hi])"
    by (simp add: distinct_map inj_on_def page_key_inj)
  ultimately show ?thesis by (simp only:)
qed

text \<open>Pages cached in the last 30 days, with their payload files, pass the first stage of
  \<open>cleanup\<close>.\<close>

lemma pages_first_pass_kept:
  assumes "metadata self = map (page_item config) [lo..<hi]"
    and "\<And>i. lo \<le> i \<Longrightarrow> i < hi \<Longrightarrow> payload_files self (page_key config i) \<noteq> None"
    and "now \<le> seconds (int lo) + timedelta_days (max_cache_age_days (cache_config self))"
  shows "first_pass_kept self now = metadata self"
proof -
  have "should_remove self now item = None" if "item \<in> set (metadata self)" for item
  proof -
    from that obtain i where i: "lo \<le> i" "i < hi" "item = page_item config i"
      by (auto simp: assms(1))
    have "seconds (int lo) \<le> seconds (int i)" using i(1) by (simp add: seconds_def)
    with assms(3) have "\<not> is_expired (cache_config self) now (snd item)"
      by (simp add: is_expired_def i(3) page_item_def completed_entry_def)
    with assms(2) [OF i(1,2)] show ?thesis
      by (auto simp: should_remove_def i(3) page_item_def completed_entry_def)
  qed
  then show ?thesis by (simp add: first_pass_kept_def)
qed

text \<open>When the first stage removes nothing and the entries are not more than
  \<open>max_entries\<close>, \<open>cleanup\<close> changes nothing.\<close>

lemma cleanup_nothing_to_remove:
  assumes k: "first_pass_kept self now = metadata self"
    and le: "int (length (metadata self)) \<le> max_entries (cache_config self)"
  shows "snd (cleanup self now) = self"
proof -
  have "filter (\<lambda>item. should_remove self now item \<noteq> None) (metadata self) = []"
  proof -
    have "length (filter (\<lambda>item. should_remove self now item = None) (metadata self))
            = length (metadata self)"
      using k by (simp add: first_pass_kept_def)
    then have "\<forall>item \<in> set (metadata self). should_remove self now item = None"
      by (metis (mono_tags, lifting) filter_id_conv length_filter_less less_irrefl_nat)
    then show ?thesis by (simp add: filter_empty_conv)
  qed
  then have "fst (scan_entries self now (metadata self) [] stats_zero) = []"
    by (simp add: scan_entries_keys)
  then obtain stats0 where scan: "scan_entries self now (metadata self) [] stats_zero = ([], stats0)"
    by (cases "scan_entries self now (metadata self) [] stats_zero") simp
  show ?thesis
    unfolding cleanup_def scan Let_def prod.case using le by simp
qed


lemma first_session_state:
  "metadata first_session = map (page_item larger_config) [0..<1050]"
  "\<And>i. i < 1050 \<Longrightarrow> payload_files first_session (page_key larger_config i) \<noteq> None"
proof -
  let ?s = "CacheManager_init larger_config None Map.empty :: cache_key CacheManager"
  have s: "metadata ?s = []" "0 \<le> max_entries (cache_config ?s)" "cache_config ?s = larger_config"
    "max_entries larger_config = 2000"
    by (simp_all add: CacheManager_init_def larger_config_def CacheConfig_default_def)
  note st = cache_pages_state [OF s(1,2), of 1050, unfolded s(3,4), folded first_session_def]
  from st show "metadata first_session = map (page_item larger_config) [0..<1050]"
    by simp
  from st show "\<And>i. i < 1050 \<Longrightarrow> payload_files first_session (page_key larger_config i) \<noteq> None"
    by simp
qed

lemma reopened_state:
  "cache_config reopened = CacheConfig_default"
  "metadata reopened = map (page_item larger_config) [0..<1050]"
  "first_pass_kept reopened (seconds 1050) = metadata reopened"
  "distinct (map fst (metadata reopened))"
proof -
  show c: "cache_config reopened = CacheConfig_default"
    by (simp add: reopened_def CacheManager_init_def)
  show m: "metadata reopened = map (page_item larger_config) [0..<1050]"
    by (simp add: reopened_def CacheManager_init_def save_metadata_def first_session_state(1))
  have p: "\<And>i. 0 \<le> i \<Longrightarrow> i < 1050 \<Longrightarrow> payload_files reopened (page_key larger_config i) \<noteq> None"
    using first_session_state(2) by (simp add: reopened_def CacheManager_init_def)
  show "first_pass_kept reopened (seconds 1050) = metadata reopened"
    by (rule pages_first_pass_kept [OF m p])
       (simp_all add: c CacheConfig_default_def seconds_def timedelta_days_def)
  show "distinct (map fst (metadata reopened))"
    unfolding m by (rule page_keys_distinct)
qed

lemma cache_pages_default:
  "cache_config (cache_pages empty_cache 1050) = CacheConfig_default"
  "metadata (cache_pages empty_cache 1050) = map (page_item CacheConfig_default) [50..<1050]"
  "snd (cleanup (cache_pages empty_cache 1050) (seconds 1050)) = cache_pages empty_cache 1050"
proof -
  have s: "metadata empty_cache = []" "0 \<le> max_entries (cache_config empty_cache)"
    "cache_config empty_cache = CacheConfig_default" "max_entries CacheConfig_default = 1000"
    by (simp_all add: empty_cache_def CacheConfig_default_def)
  note st = cache_pages_state [OF s(1,2), of 1050, unfolded s(3,4)]
  from st show c: "cache_config (cache_pages empty_cache 1050) = CacheConfig_default" by simp
  from st show m: "metadata (cache_pages empty_cache 1050) = map (page_item CacheConfig_default) [50..<1050]"
    by simp
  from st have p: "\<And>i. 50 \<le> i \<Longrightarrow> i < 1050 \<Longrightarrow>
      payload_files (cache_pages empty_cache 1050) (page_key CacheConfig_default i) \<noteq> None"
    by simp
  have k: "first_pass_kept (cache_pages empty_cache 1050) (seconds 1050)
             = metadata (cache_pages empty_cache 1050)"
    by (rule pages_first_pass_kept [OF m p])
       (simp_all add: c CacheConfig_default_def seconds_def timedelta_days_def)
  show "snd (cleanup (cache_pages empty_cache 1050) (seconds 1050)) = cache_pages empty_cache 1050"
    by (rule cleanup_nothing_to_remove [OF k]) (simp add: m c s(4))
qed

text \<open>
  C1 (as stated).  The cache directory holds 1050 completed entries with distinct
  \<open>last_accessed\<close> times, cached by a run with \<open>max_entries = 2000\<close>, and is opened with
  the default configuration (\<open>max_entries = 1000\<close>, \<open>preserve_recent = 100\<close>).  None of
  the entries is expired, failed or without payload, so 1050 remain after the first stage:
  \<open>cleanup\<close> leaves 100 entries, not 1000.
\<close>

theorem cleanup_reopened_counterexample:
  "length (metadata reopened) = 1050
   \<and> length (first_pass_kept reopened (seconds 1050)) = 1050
   \<and> max_entries (cache_config reopened) = 1000
   \<and> length (metadata (snd (cleanup reopened (seconds 1050)))) = 100"
proof -
  have l: "length (metadata reopened) = 1050" by (simp add: reopened_state(2))
  have c: "max_entries (cache_config reopened) = 1000" "preserve_recent (cache_config reopened) = 100"
    by (simp_all add: reopened_state(1) CacheConfig_default_def)
  have "int (length (metadata (snd (cleanup reopened (seconds 1050))))) =
          min (max_entries (cache_config reopened)) (preserve_recent (cache_config reopened))"
    by (rule cleanup_remaining_length [OF reopened_state(4)])
       (simp_all add: reopened_state(3) l c)
  with l c show ?thesis by (simp add: reopened_state(3))
qed

text \<open>
  C1 (amended).  When the entries that the first stage keeps (not expired, payload present,
  neither corrupted nor failed with its retries used up) are more than \<open>max_entries\<close>, and
  \<open>max_entries\<close> and \<open>preserve_recent\<close> are not negative, \<open>cleanup\<close> additionally evicts
  the least recently accessed of them down to exactly \<open>min(max_entries, preserve_recent)\<close>
  remaining entries (100 with the defaults): every entry that remains was kept by the first
  stage, and every entry of the first stage that is evicted was accessed no later than every
  entry that remains; so none of the \<open>min(max_entries, preserve_recent)\<close> most recently
  accessed entries is evicted.  Insertion alone does not lead to such a state, since
  \<open>set_cache\<close> evicts down to \<open>max_entries\<close> after every insertion: after inserting 1050
  completed entries with distinct \<open>last_accessed\<close> times under the default configuration,
  \<open>cleanup\<close> leaves exactly \<open>max_entries\<close> (1000) entries.
\<close>

theorem cleanup_secondary_eviction:
  assumes "distinct (map fst (metadata self))"
    and "max_entries (cache_config self) < int (length (first_pass_kept self now))"
    and "0 \<le> min (max_entries (cache_config self)) (preserve_recent (cache_config self))"
  shows "int (length (metadata (snd (cleanup self now)))) =
           min (max_entries (cache_config self)) (preserve_recent (cache_config self))
    \<and> set (metadata (snd (cleanup self now))) \<subseteq> set (first_pass_kept self now)
    \<and> (\<forall>kept \<in> set (metadata (snd (cleanup self now))).
         \<forall>old \<in> set (first_pass_kept self now) - set (metadata (snd (cleanup self now))).
           last_accessed (snd old) \<le> last_accessed (snd kept))
    \<and> int (length (metadata (snd (cleanup (cache_pages empty_cache 1050) (seconds 1050)))))
        = max_entries (cache_config (cache_pages empty_cache 1050))
    \<and> max_entries (cache_config (cache_pages empty_cache 1050)) = 1000"
proof -
  define R where "R = first_pass_kept self now"
  define S where "S = sorted_reverse (\<lambda>x. last_accessed (snd x)) R"
  define kc where "kc = nat (min (max_entries (cache_config self)) (preserve_recent (cache_config self)))"
  have m: "metadata (snd (cleanup self now)) = filter (\<lambda>item. item \<in> set (take kc S)) (metadata self)"
    using cleanup_metadata_secondary [OF assms] by (simp add: R_def S_def kc_def)
  have RM: "set R \<subseteq> set (metadata self)" by (auto simp: R_def first_pass_kept_def)
  have setS: "set S = set R" by (simp add: S_def sorted_reverse_def)
  have tk: "set (take kc S) \<subseteq> set R" using set_take_subset [of kc S] setS by simp
  have sm: "set (metadata (snd (cleanup self now))) = set (take kc S)"
    using tk RM by (auto simp: m)
  have lru: "last_accessed (snd old) \<le> last_accessed (snd kept)"
    if "kept \<in> set (take kc S)" "old \<in> set R - set (take kc S)" for kept old
  proof -
    from that(2) setS have "old \<in> set (take kc S @ drop kc S)" "old \<notin> set (take kc S)" by simp_all
    then have "old \<in> set (drop kc S)" unfolding set_append by blast
    with that(1) show ?thesis
      unfolding S_def by (rule sorted_reverse_split [of kept kc "\<lambda>x. last_accessed (snd x)" R old])
  qed
  have ex: "int (length (metadata (snd (cleanup (cache_pages empty_cache 1050) (seconds 1050)))))
              = max_entries (cache_config (cache_pages empty_cache 1050))"
    "max_entries (cache_config (cache_pages empty_cache 1050)) = 1000"
    by (simp_all add: cache_pages_default CacheConfig_default_def)
  from cleanup_remaining_length [OF assms] sm tk lru ex show ?thesis
    by (simp add: R_def)
qed

theorem cleanup_secondary_eviction_witness:
  "distinct (map fst (metadata reopened))
   \<and> max_entries (cache_config reopened) < int (length (first_pass_kept reopened (seconds 1050)))
   \<and> 0 \<le> min (max_entries (cache_config reopened)) (preserve_recent (cache_config reopened))
   \<and> int (length (metadata (snd (cleanup reopened (seconds 1050))))) = 100
   \<and> int (length (metadata (snd (cleanup (cache_pages empty_cache 1050) (seconds 1050))))) = 1000"
proof -
  have l: "length (metadata reopened) = 1050" by (simp add: reopened_state(2))
  have c: "max_entries (cache_config reopened) = 1000" "preserve_recent (cache_config reopened) = 100"
    by (simp_all add: reopened_state(1) CacheConfig_default_def)
  have h: "distinct (map fst (metadata reopened))"
    "max_entries (cache_config reopened) < int (length (first_pass_kept reopened (seconds 1050)))"
    "0 \<le> min (max_entries (cache_config reopened)) (preserve_recent (cache_config reopened))"
    by (simp_all add: reopened_state(3,4) l c)
  from cleanup_secondary_eviction [OF h] h c show ?thesis by simp
qed



section \<open>Properties of the cache lookup\<close>


















section \<open>Properties of the processing with checkpoints\<close>

lemma max_retries_default: "max_retries RetryConfig_default = 3"
  by (simp add: RetryConfig_default_def)

lemma bad_scan_str: "exn_str bad_scan = py ''bad scan''"
  by (simp add: bad_scan_def)

lemma classify_bad_scan: "classify_error bad_scan = UNKNOWN_ERROR"
  by (simp add: classify_error_def bad_scan_def any_in_def py_lower_def py_def)

lemma should_retry_bad_scan: "\<not> should_retry RetryConfig_default bad_scan n"
  by (simp add: should_retry_def classify_bad_scan RetryConfig_default_def)

lemma first_page_1:
  "process_page_with_retry RetryConfig_default first_processor rnd now 1 cfg 0 attempts ()
     = (Inr (Some (py ''A'')), attempts, ())"
  by (subst process_page_with_retry.simps)
     (simp add: first_processor_def RetryConfig_default_def)

lemma first_page_2:
  "process_page_with_retry RetryConfig_default first_processor rnd now 2 cfg 0 attempts ()
     = (Inr None,
        attempts @ [\<lparr> ra_attempt_number = 0, ra_timestamp = now, ra_error_type = UNKNOWN_ERROR,
                      ra_error_message = py ''bad scan'', delay_before_retry = 0,
                      ra_success = False \<rparr>], ())"
  by (subst process_page_with_retry.simps)
     (simp add: first_processor_def should_retry_bad_scan classify_bad_scan
        max_retries_default bad_scan_str)

lemma job_key_generated:
  assumes "cfg_cache_version (cache_config self) = py ''v1.0''"
  shows "generate_cache_key self (pdf_at 100) (py ''input/doc.pdf'') [] (py ''dashscope'') [] (1, 2)
           = Inr job_key"
  using assms
  by (simp add: generate_cache_key_def calculate_file_hash_def pdf_at_def config_str_def
      path_name_def job_key_def)
     (simp add: py_def)

lemma pages_1_2: "[1..2] = [1, 2::int]"
  by (simp add: upto.simps)

lemma default_version: "cfg_cache_version CacheConfig_default = py ''v1.0''"
  by (simp add: CacheConfig_default_def)

lemma first_get_cache:
  "get_cache empty_cache (pdf_at 100) now (py ''input/doc.pdf'') [] (py ''dashscope'') [] (1, 2)
     = (Inr None, empty_cache)"
proof -
  have k: "generate_cache_key empty_cache (pdf_at 100) (py ''input/doc.pdf'') [] (py ''dashscope'') []
             (1, 2) = Inr job_key"
    by (rule job_key_generated) (simp add: empty_cache_def default_version)
  have "has_cache empty_cache (pdf_at 100) now (py ''input/doc.pdf'') [] (py ''dashscope'') [] (1, 2)
          = Inr False"
    unfolding has_cache_def k by (simp add: empty_cache_def)
  then show ?thesis by (simp add: get_cache_def)
qed

lemma first_mark_processing:
  "mark_processing empty_cache (pdf_at 100) (seconds 0) (py ''input/doc.pdf'') [] (py ''dashscope'') []
       (1, 2)
     = (Inr job_key,
        \<lparr> cache_config = CacheConfig_default,
          metadata = [(job_key,
                       (completed_entry CacheConfig_default job_key
                          (py ''doc.pdf'', 10, 100, [37, 80, 68, 70])
                          \<lparr> st_size = 10, st_mtime = 100, head_bytes = Some [37, 80, 68, 70] \<rparr>
                          (seconds 0) (py ''input/doc.pdf'') [] (py ''dashscope'') [] (1, 2) [] 0)
                       \<lparr>md_status := PROCESSING\<rparr>)],
          payload_files = Map.empty \<rparr>)"
proof -
  have k: "generate_cache_key empty_cache (pdf_at 100) (py ''input/doc.pdf'') [] (py ''dashscope'') []
             (1, 2) = Inr job_key"
    by (rule job_key_generated) (simp add: empty_cache_def default_version)
  show ?thesis
    unfolding mark_processing_def k page_file
    by (simp add: empty_cache_def)
qed

lemma text_nonempty: "py ''A'' \<noteq> []" "py ''B'' \<noteq> []"
  by (simp_all add: py_def)

lemma first_process_pages:
  "process_pages RetryConfig_default first_processor rnd (seconds 0) [1, 2] (new_state (seconds 0))
       Map.empty ()
     = (None, first_checkpoint, [job_key \<mapsto> first_checkpoint], ())"
  by (simp add: first_page_1 first_page_2 Let_def truthy_def save_processing_state_def
      first_checkpoint_def new_state_def text_nonempty)

lemma first_run_eq: "first_run = (Inl (Exception first_message), after_first_run, ())"
proof -
  have k: "generate_cache_key empty_cache (pdf_at 100) (py ''input/doc.pdf'') [] (py ''dashscope'') []
             (1, 2) = Inr job_key"
    by (rule job_key_generated) (simp add: empty_cache_def default_version)
  have l: "load_processing_state Map.empty job_key = None"
    by (simp add: load_processing_state_def)
  have n: "int (length (completed_pages first_checkpoint)) \<noteq> 2"
    by (simp add: first_checkpoint_def)
  have n': "length (completed_pages first_checkpoint) \<noteq> 2"
    by (simp add: first_checkpoint_def)
  have a: "(2::int) - 1 + 1 = 2" by simp
  show ?thesis
    unfolding first_run_def run_def process_with_recovery_def fresh_manager_def
    apply (simp only: RetryManager.simps k first_get_cache sum.case prod.case truthy_def
        option.case if_False fst_conv snd_conv Let_def l first_mark_processing pages_1_2 a)
    apply (simp only: new_state_def [symmetric] first_process_pages)
    apply (simp add: n n' first_message_def after_first_run_def mark_failed_def failed_entry_def
        completed_entry_def)
    done
qed

lemma set_cache_without_eviction:
  assumes "generate_cache_key self fs path cfg svc terms pages = Inr key"
    and "fs path = Some f" and "calculate_file_hash fs path = Inr h"
    and "int (length (AList.update key
                 (completed_entry (cache_config self) key h f now path cfg svc terms pages
                    result ptime) (metadata self))) \<le> max_entries (cache_config self)"
  shows "set_cache pickle_size self fs now path cfg svc terms pages result ptime =
     (True,
      self\<lparr>payload_files := (payload_files self)
               (key \<mapsto> \<lparr> pickled = Some result, st_bytes = pickle_size result \<rparr>),
            metadata := AList.update key
               (completed_entry (cache_config self) key h f now path cfg svc terms pages
                  result ptime) (metadata self)\<rparr>)"
  unfolding set_cache_def assms(1) Let_def
  using assms(4) by (simp add: assms(2,3) not_less [symmetric])

lemma second_page_2:
  "process_page_with_retry RetryConfig_default second_processor rnd now 2 cfg 0 attempts ()
     = (Inr (Some (py ''B'')), attempts, ())"
  by (subst process_page_with_retry.simps)
     (simp add: second_processor_def max_retries_default)

lemma second_load:
  "load_processing_state (state_dir after_first_run) job_key = Some loaded_checkpoint"
  by (simp add: load_processing_state_def after_first_run_def loaded_checkpoint_def
      json_object_def first_checkpoint_def str_int_example)

lemma second_process_pages:
  "process_pages RetryConfig_default second_processor rnd (seconds 60) [1, 2] loaded_checkpoint
       [job_key \<mapsto> first_checkpoint] ()
     = (None, second_state, [job_key \<mapsto> second_state], ())"
  by (simp add: second_page_2 Let_def truthy_def save_processing_state_def text_nonempty
      loaded_checkpoint_def first_checkpoint_def second_state_def)

lemma second_combined:
  "combined_results [1, 2] (partial_results second_state) = py ''B''"
  by (simp add: combined_results_def second_state_def)

lemma second_get_cache:
  "get_cache (cache_manager after_first_run) (pdf_at 100) now (py ''input/doc.pdf'') []
       (py ''dashscope'') [] (1, 2)
     = (Inr None, cache_manager after_first_run)"
proof -
  have k: "generate_cache_key (cache_manager after_first_run) (pdf_at 100) (py ''input/doc.pdf'') []
             (py ''dashscope'') [] (1, 2) = Inr job_key"
    by (rule job_key_generated) (simp add: after_first_run_def default_version)
  have "has_cache (cache_manager after_first_run) (pdf_at 100) now (py ''input/doc.pdf'') []
          (py ''dashscope'') [] (1, 2) = Inr False"
    unfolding has_cache_def k by (simp add: after_first_run_def failed_entry_def)
  then show ?thesis by (simp add: get_cache_def)
qed

lemma second_run_eq:
  "second_run =
     (Inr (py ''B''),
      \<lparr> rm_config = RetryConfig_default,
        cache_manager =
          \<lparr> cache_config = CacheConfig_default,
            metadata =
              [(job_key,
                completed_entry CacheConfig_default job_key (py ''doc.pdf'', 10, 100, [37, 80, 68, 70])
                  \<lparr> st_size = 10, st_mtime = 100, head_bytes = Some [37, 80, 68, 70] \<rparr>
                  (seconds 60) (py ''input/doc.pdf'') [] (py ''dashscope'') [] (1, 2) (py ''B'') 60)],
            payload_files = [job_key \<mapsto> \<lparr> pickled = Some (py ''B''), st_bytes = 1 \<rparr>] \<rparr>,
        state_dir = Map.empty \<rparr>, ())"
proof -
  have k: "generate_cache_key (cache_manager after_first_run) (pdf_at 100) (py ''input/doc.pdf'') []
             (py ''dashscope'') [] (1, 2) = Inr job_key"
    by (rule job_key_generated) (simp add: after_first_run_def default_version)
  have n: "int (length (completed_pages second_state)) = 2"
    by (simp add: second_state_def)
  have a: "(2::int) - 1 + 1 = 2" by simp
  have t: "real_of_int (seconds 60 - start_time second_state) / 1000000 = 60"
    by (simp add: second_state_def loaded_checkpoint_def first_checkpoint_def seconds_def)
  have k': "generate_cache_key \<lparr> cache_config = CacheConfig_default,
                 metadata = [(job_key, failed_entry)], payload_files = Map.empty \<rparr>
              (pdf_at 100) (py ''input/doc.pdf'') [] (py ''dashscope'') [] (1, 2) = Inr job_key"
    using k by (simp add: after_first_run_def)
  have sc: "set_cache (\<lambda>text. int (length text))
              \<lparr> cache_config = CacheConfig_default,
                 metadata = [(job_key, failed_entry)], payload_files = Map.empty \<rparr> (pdf_at 100)
              (seconds 60) (py ''input/doc.pdf'') [] (py ''dashscope'') [] (1, 2) (py ''B'') 60
            = (True,
               \<lparr> cache_config = CacheConfig_default,
                 metadata =
                   [(job_key,
                     completed_entry CacheConfig_default job_key (py ''doc.pdf'', 10, 100, [37, 80, 68, 70])
                       \<lparr> st_size = 10, st_mtime = 100, head_bytes = Some [37, 80, 68, 70] \<rparr>
                       (seconds 60) (py ''input/doc.pdf'') [] (py ''dashscope'') [] (1, 2) (py ''B'') 60)],
                 payload_files = [job_key \<mapsto> \<lparr> pickled = Some (py ''B''), st_bytes = 1 \<rparr>] \<rparr>)"
    by (subst set_cache_without_eviction [OF k' page_file])
       (simp_all add: CacheConfig_default_def py_def)
  show ?thesis
    unfolding second_run_def first_run_eq run_def process_with_recovery_def
    apply (simp only: fst_conv snd_conv k second_get_cache sum.case prod.case truthy_def
        option.case if_False Let_def second_load pages_1_2 a)
    apply (simp only: after_first_run_def RetryManager.simps)
    apply (simp only: second_process_pages prod.case option.case n if_True second_combined
        t sc)
    apply simp
    done
qed

lemma second_page_1:
  "process_page_with_retry RetryConfig_default second_processor rnd now 1 cfg 0 attempts ()
     = (Inr (Some (py ''A'')), attempts, ())"
  by (subst process_page_with_retry.simps)
     (simp add: second_processor_def max_retries_default)

text \<open>For comparison: the same job run once, both pages succeeding.\<close>

lemma uninterrupted_run:
  "fst (run second_processor fresh_manager (seconds 0)) = Inr (py ''A'' @ [10, 10] @ py ''B'')"
proof -
  have k: "generate_cache_key empty_cache (pdf_at 100) (py ''input/doc.pdf'') [] (py ''dashscope'') []
             (1, 2) = Inr job_key"
    by (rule job_key_generated) (simp add: empty_cache_def default_version)
  have l: "load_processing_state Map.empty job_key = None"
    by (simp add: load_processing_state_def)
  have a: "(2::int) - 1 + 1 = 2" by simp
  define done_state where "done_state =
     (new_state (seconds 0))\<lparr>current_page := Some 2, completed_pages := [1, 2],
        partial_results := [(IntKey 1, py ''A''), (IntKey 2, py ''B'')]\<rparr>"
  have p: "process_pages RetryConfig_default second_processor (\<lambda>page_num attempt. 0) (seconds 0)
             [1, 2] (new_state (seconds 0)) Map.empty ()
           = (None, done_state, [job_key \<mapsto> done_state], ())"
    by (simp add: second_page_1 second_page_2 Let_def truthy_def save_processing_state_def
        new_state_def text_nonempty done_state_def)
  have n: "int (length (completed_pages done_state)) = 2" by (simp add: done_state_def)
  have c: "combined_results [1, 2] (partial_results done_state) = py ''A'' @ [10, 10] @ py ''B''"
    by (simp add: combined_results_def done_state_def)
  show ?thesis
    unfolding run_def process_with_recovery_def fresh_manager_def
    apply (simp only: RetryManager.simps k first_get_cache sum.case prod.case truthy_def
        option.case if_False fst_conv snd_conv Let_def l first_mark_processing pages_1_2 a)
    apply (simp only: new_state_def [symmetric] p prod.case option.case n if_True c)
    apply (simp add: split_beta)
    done
qed

text \<open>
  C3.  A job over the pages 1 to 2.  The first run completes page 1 (text A), fails on
  page 2 and raises, leaving the checkpoint with \<open>completed_pages = [1]\<close> and the text of
  page 1.  The second run skips page 1, completes page 2 (text B), finds every page
  completed, and returns and caches B alone, then deletes the checkpoint: the text of
  page 1 is lost, where the joined text is A, an empty line, B (as \<open>uninterrupted_run\<close>
  gives for a single run).  The checkpoint is a JSON file, so the page numbers that key
  \<open>partial_results\<close> come back as strings, and the test \<open>page_num in state.partial_results\<close>
  of the joining loop, made with the integer, fails for every page restored from it.
\<close>

theorem resumed_job_loses_checkpointed_pages:
  "fst first_run = Inl (Exception first_message)
   \<and> map_option completed_pages (state_dir (fst (snd first_run)) job_key) = Some [1]
   \<and> map_option partial_results (state_dir (fst (snd first_run)) job_key)
       = Some [(IntKey 1, py ''A'')]
   \<and> fst second_run = Inr (py ''B'')
   \<and> py ''B'' \<noteq> py ''A'' @ [10, 10] @ py ''B''
   \<and> map_option pickled (payload_files (cache_manager (fst (snd second_run))) job_key)
       = Some (Some (py ''B''))
   \<and> state_dir (fst (snd second_run)) job_key = None"
  unfolding first_run_eq second_run_eq
  by (simp add: after_first_run_def first_checkpoint_def)

end
